theory Spec2Isabelle
  imports Main "HOL-Library.Sublist"
begin

section \<open>Python values used by the triage script\<close>

text \<open>
  A Python \<open>str\<close> is modelled as a \<open>string\<close>, one \<open>char\<close> per code point
  (code points 0 to 255). The functions below are the \<open>str\<close> methods the
  script calls, restricted to that range.
\<close>

definition lower_char :: "char \<Rightarrow> char" where
  \<comment> \<open>\<open>str.lower\<close> on one code point: A to Z, and the Latin-1 capitals
      (192 to 222 except the multiplication sign 215), move up by 32.\<close>
  "lower_char c =
     (let n = (of_char c :: nat)
      in if (65 \<le> n \<and> n \<le> 90) \<or> (192 \<le> n \<and> n \<le> 222 \<and> n \<noteq> 215)
         then char_of (n + 32) else c)"

definition lower :: "string \<Rightarrow> string" where
  "lower s = map lower_char s"

definition startswith :: "string \<Rightarrow> string \<Rightarrow> bool" where
  \<comment> \<open>\<open>s.startswith(p)\<close>\<close>
  "startswith s p = (take (length p) s = p)"

definition isspace :: "char \<Rightarrow> bool" where
  \<comment> \<open>\<open>str.isspace\<close> on one code point below 256.\<close>
  "isspace c =
     (let n = (of_char c :: nat)
      in (9 \<le> n \<and> n \<le> 13) \<or> (28 \<le> n \<and> n \<le> 32) \<or> n = 133 \<or> n = 160)"

definition strip :: "string \<Rightarrow> string" where
  \<comment> \<open>\<open>s.strip()\<close>: leading and trailing whitespace removed.\<close>
  "strip s = rev (dropWhile isspace (rev (dropWhile isspace s)))"

definition truthy :: "string option \<Rightarrow> bool" where
  \<comment> \<open>The truth value of a \<open>str | None\<close>: \<open>None\<close> and \<open>""\<close> are false.\<close>
  "truthy x = (case x of None \<Rightarrow> False | Some s \<Rightarrow> s \<noteq> [])"

definition or_str :: "string option \<Rightarrow> string \<Rightarrow> string" where
  \<comment> \<open>\<open>x or d\<close> with a string default.\<close>
  "or_str x d = (case x of None \<Rightarrow> d | Some s \<Rightarrow> if s \<noteq> [] then s else d)"

definition or_None :: "string option \<Rightarrow> string option" where
  \<comment> \<open>\<open>x or None\<close>\<close>
  "or_None x = (if truthy x then x else None)"

type_synonym dict = "string \<rightharpoonup> string"

definition dict_get :: "dict \<Rightarrow> string \<Rightarrow> string \<Rightarrow> string" where
  \<comment> \<open>\<open>d.get(k, default)\<close>\<close>
  "dict_get d k dflt = (case d k of None \<Rightarrow> dflt | Some v \<Rightarrow> v)"

text \<open>
  A raised exception is a value. \<open>except Exception\<close> catches the instances of
  \<open>Exception\<close> only; \<open>KeyboardInterrupt\<close>, \<open>SystemExit\<close> and the other direct
  descendants of \<open>BaseException\<close> pass through it. The string is the class name or
  the message.
\<close>

datatype exn = Exception string | BaseException string

section \<open>Data model\<close>

text \<open>
  The enumerations and the incident record belong to the store's SDK. The script uses
  the members \<open>NEW\<close>, \<open>ACTIVE\<close> and \<open>CLOSED\<close> of \<open>IncidentStatus\<close>, the \<open>name\<close> of a
  severity and of a status, and the fields below of an incident; every other field of
  the SDK's record is the extension of the record \<open>IncidentProperties\<close>.
\<close>

datatype IncidentStatus = NEW | ACTIVE | CLOSED

datatype IncidentSeverity = HIGH | MEDIUM | LOW | INFORMATIONAL

fun status_name :: "IncidentStatus \<Rightarrow> string" where
  "status_name NEW = ''NEW''"
| "status_name ACTIVE = ''ACTIVE''"
| "status_name CLOSED = ''CLOSED''"

fun severity_name :: "IncidentSeverity \<Rightarrow> string" where
  "severity_name HIGH = ''HIGH''"
| "severity_name MEDIUM = ''MEDIUM''"
| "severity_name LOW = ''LOW''"
| "severity_name INFORMATIONAL = ''INFORMATIONAL''"

record IncidentProperties =
  title :: "string option"
  description :: "string option"
  severity :: "IncidentSeverity option"
  status :: "IncidentStatus option"
  classification :: "string option"
  classification_comment :: "string option"

record 'p Incident =
  name :: string
  properties :: "'p IncidentProperties_scheme option"

text \<open>models.py\<close>

record IncidentSummary =
  summary_id :: string
  summary_title :: string
  summary_description :: string
  summary_severity :: string
  summary_status :: string

definition as_prompt :: "IncidentSummary \<Rightarrow> string" where
  "as_prompt self =
     ''['' @ summary_severity self @ ''] '' @ summary_title self @ '': '' @ summary_description self"

record SentinelConfig =
  subscription_id :: string
  resource_group :: string
  workspace_name :: string

record LLMClient =
  model_name :: string

section \<open>The world outside the script\<close>

text \<open>
  A logging call is recorded with its level, its format string and its arguments.
\<close>

datatype level = DEBUG | INFO | WARNING | ERROR

datatype arg = AStr string | ANat nat | AStatus IncidentStatus | AOptStr "string option" | AExn exn

record log_entry =
  lvl :: level
  fmt :: string
  args :: "arg list"

text \<open>The calls made to the incident store and to the model provider, in order.\<close>

datatype 'p call =
    ListIncidents
  | GetIncident string
  | CreateOrUpdate string "'p Incident"
  | ChatCompletion string string string

text \<open>
  The world holds what the collaborators answer (the environment variables, whether the
  \<open>openai\<close> package is there, the credential, the incident pager, the exceptions of the
  store's \<open>get\<close> and \<open>create_or_update\<close> per incident id, the provider's answer per model
  name, title and description: the content of the first choice of the response, or the
  exception raised on the way to it) and what the script changes (the store's records,
  the calls made, the log).
\<close>

record 'p world =
  environ :: "string \<rightharpoonup> string"
  openai_installed :: bool
  credential_exc :: "exn option"
  pager :: "exn + 'p Incident list"
  get_exc :: "string \<Rightarrow> exn option"
  put_exc :: "string \<Rightarrow> exn option"
  completion :: "string \<Rightarrow> string \<Rightarrow> string \<Rightarrow> exn + string option"
  store :: "string \<rightharpoonup> 'p Incident"
  calls :: "'p call list"
  logs :: "log_entry list"

definition logger :: "level \<Rightarrow> string \<Rightarrow> arg list \<Rightarrow> 'p world \<Rightarrow> 'p world" where
  "logger l f as w = w\<lparr>logs := logs w @ [\<lparr>lvl = l, fmt = f, args = as\<rparr>]\<rparr>"

definition called :: "'p call \<Rightarrow> 'p world \<Rightarrow> 'p world" where
  "called c w = w\<lparr>calls := calls w @ [c]\<rparr>"

section \<open>sentinel\_client.py\<close>

definition get_credential :: "'p world \<Rightarrow> (exn + unit) \<times> 'p world" where
  "get_credential w =
     (case credential_exc w of
        None \<Rightarrow> (Inr (), logger DEBUG ''Obtained token using DefaultAzureCredential'' [] w)
      | Some (Exception m) \<Rightarrow>
          (Inl (Exception m),
           logger ERROR ''Failed to obtain Azure credentials: %s'' [AExn (Exception m)] w)
      | Some (BaseException m) \<Rightarrow> (Inl (BaseException m), w))"

definition get_sentinel_client :: "SentinelConfig \<Rightarrow> 'p world \<Rightarrow> (exn + unit) \<times> 'p world" where
  "get_sentinel_client config w = get_credential w"

definition is_active :: "'p Incident \<Rightarrow> bool" where
  \<comment> \<open>the test of line 69\<close>
  "is_active incident =
     (case properties incident of
        None \<Rightarrow> False
      | Some p \<Rightarrow> status p \<in> set [Some NEW, Some ACTIVE])"

definition list_active_incidents ::
  "SentinelConfig \<Rightarrow> 'p world \<Rightarrow> (exn + 'p Incident list) \<times> 'p world" where
  "list_active_incidents config w =
     (let w1 = called ListIncidents w
      in case pager w1 of
           Inr items \<Rightarrow>
             (let incidents = filter is_active items
              in (Inr incidents,
                  logger INFO ''Fetched %d active incidents'' [ANat (length incidents)] w1))
         | Inl (Exception m) \<Rightarrow>
             (Inr [], logger ERROR ''Error listing incidents: %s'' [AExn (Exception m)] w1)
         | Inl (BaseException m) \<Rightarrow> (Inl (BaseException m), w1))"

definition modified ::
  "'p IncidentProperties_scheme \<Rightarrow> IncidentStatus \<Rightarrow> string option \<Rightarrow> string option
     \<Rightarrow> 'p IncidentProperties_scheme" where
  \<comment> \<open>lines 105 to 109: the assignments to the re-fetched record's properties\<close>
  "modified p status' classification' comment =
     (let p1 = p\<lparr>status := Some status'\<rparr>;
          p2 = (if truthy classification' then p1\<lparr>classification := classification'\<rparr> else p1)
      in if truthy comment then p2\<lparr>classification_comment := comment\<rparr> else p2)"

definition update_try ::
  "SentinelConfig \<Rightarrow> 'p Incident \<Rightarrow> IncidentStatus \<Rightarrow> string option \<Rightarrow> string option
     \<Rightarrow> 'p world \<Rightarrow> (exn + unit) \<times> 'p world" where
  \<comment> \<open>the body of the \<open>try\<close> of \<open>update_incident_status\<close>, lines 94 to 123\<close>
  "update_try config incident status' classification' comment w =
     (let w1 = called (GetIncident (name incident)) w
      in case get_exc w1 (name incident) of
           Some e \<Rightarrow> (Inl e, w1)
         | None \<Rightarrow>
            (case store w1 (name incident) of
               None \<Rightarrow> (Inr (), logger WARNING ''Incident %s not found'' [AStr (name incident)] w1)
             | Some current \<Rightarrow>
                (case properties current of
                   None \<Rightarrow> (Inl (Exception ''AttributeError''), w1)
                 | Some p \<Rightarrow>
                    (let current' = current\<lparr>properties :=
                                       Some (modified p status' classification' comment)\<rparr>;
                         w2 = called (CreateOrUpdate (name current') current') w1
                     in case put_exc w2 (name current') of
                          Some e \<Rightarrow> (Inl e, w2)
                        | None \<Rightarrow>
                           (Inr (),
                            logger INFO ''Updated incident %s to status %s with classification %s''
                              [AStr (name incident), AStatus status', AOptStr classification']
                              (w2\<lparr>store := (store w2)(name current' \<mapsto> current')\<rparr>))))))"

definition update_incident_status ::
  "SentinelConfig \<Rightarrow> 'p Incident \<Rightarrow> IncidentStatus \<Rightarrow> string option \<Rightarrow> string option
     \<Rightarrow> 'p world \<Rightarrow> (exn + unit) \<times> 'p world" where
  "update_incident_status config incident status' classification' comment w =
     (case update_try config incident status' classification' comment w of
        (Inl (Exception m), w') \<Rightarrow>
          (Inr (),
           logger ERROR ''Error updating incident %s: %s''
             [AStr (name incident), AExn (Exception m)] w')
      | (Inl (BaseException m), w') \<Rightarrow> (Inl (BaseException m), w')
      | (Inr u, w') \<Rightarrow> (Inr u, w'))"

section \<open>llm\_client.py\<close>

definition LLMClient_init :: "string \<Rightarrow> 'p world \<Rightarrow> exn + LLMClient" where
  "LLMClient_init model w =
     (if \<not> openai_installed w then Inl (Exception ''ImportError'')
      else if \<not> truthy (environ w ''OPENAI_API_KEY'') then Inl (Exception ''ValueError'')
      else Inr \<lparr>model_name = model\<rparr>)"

definition llm_try :: "LLMClient \<Rightarrow> string \<Rightarrow> string \<Rightarrow> 'p world \<Rightarrow> exn + dict" where
  \<comment> \<open>the body of the \<open>try\<close> of \<open>analyse_incident\<close>, lines 55 to 71\<close>
  "llm_try self incident_title incident_description w =
     (case completion w (model_name self) incident_title incident_description of
        Inl e \<Rightarrow> Inl e
      | Inr None \<Rightarrow> Inl (Exception ''AttributeError'')
      | Inr (Some content) \<Rightarrow>
          Inr [''recommended_status'' \<mapsto> ''Active'',
               ''classification'' \<mapsto> '''',
               ''comment'' \<mapsto> strip content])"

definition analyse_incident ::
  "LLMClient \<Rightarrow> string \<Rightarrow> string \<Rightarrow> 'p world \<Rightarrow> (exn + dict) \<times> 'p world" where
  "analyse_incident self incident_title incident_description w =
     (let w1 = called (ChatCompletion (model_name self) incident_title incident_description) w
      in case llm_try self incident_title incident_description w1 of
           Inr result \<Rightarrow> (Inr result, w1)
         | Inl (Exception m) \<Rightarrow>
             (Inr [''recommended_status'' \<mapsto> ''Active'',
                   ''classification'' \<mapsto> ''Unspecified'',
                   ''comment'' \<mapsto> ''LLM analysis failed; leaving incident open.''],
              logger ERROR ''Error invoking LLM: %s'' [AExn (Exception m)] w1)
         | Inl (BaseException m) \<Rightarrow> (Inl (BaseException m), w1))"

section \<open>auto\_triage.py\<close>

definition load_config :: "'p world \<Rightarrow> exn + SentinelConfig" where
  "load_config w =
     (let subscription = environ w ''SUBSCRIPTION_ID'';
          rgroup = environ w ''RESOURCE_GROUP'';
          wname = environ w ''WORKSPACE_NAME''
      in if \<not> (truthy subscription \<and> truthy rgroup \<and> truthy wname)
         then Inl (Exception ''EnvironmentError'')
         else (case (subscription, rgroup, wname) of
                 (Some s, Some r, Some n) \<Rightarrow>
                   Inr \<lparr>subscription_id = s, resource_group = r, workspace_name = n\<rparr>
               | _ \<Rightarrow> Inl (Exception ''EnvironmentError'')))"

definition incident_summary :: "string \<Rightarrow> 'p IncidentProperties_scheme \<Rightarrow> IncidentSummary" where
  \<comment> \<open>lines 76 to 82\<close>
  "incident_summary inc_name props =
     \<lparr>summary_id = inc_name,
      summary_title = or_str (title props) ''(no title)'',
      summary_description = or_str (description props) ''(no description)'',
      summary_severity = (case severity props of Some s \<Rightarrow> severity_name s | None \<Rightarrow> ''Unknown''),
      summary_status = (case status props of Some s \<Rightarrow> status_name s | None \<Rightarrow> ''Unknown'')\<rparr>"

definition map_status :: "string \<Rightarrow> IncidentStatus" where
  \<comment> \<open>lines 90 to 94\<close>
  "map_status recommended_status =
     (if startswith (lower recommended_status) ''clos'' then CLOSED
      else if startswith (lower recommended_status) ''new'' then NEW
      else ACTIVE)"

definition apply_recommendation ::
  "SentinelConfig \<Rightarrow> 'p Incident \<Rightarrow> 'p IncidentProperties_scheme \<Rightarrow> IncidentSummary \<Rightarrow> dict
     \<Rightarrow> 'p world \<Rightarrow> (exn + unit) \<times> 'p world" where
  \<comment> \<open>lines 85 to 106 of the loop body: what is done with the dictionary that
      \<open>analyse_incident\<close> returned\<close>
  "apply_recommendation config inc props summary result w =
     (let recommended_status = dict_get result ''recommended_status'' ''Active'';
          classification' = or_None (result ''classification'');
          comment = or_None (result ''comment'');
          status_enum = map_status recommended_status
      in if Some status_enum \<noteq> status props
         then update_incident_status config inc status_enum classification' comment w
         else (Inr (),
               logger INFO ''No status change for incident %s'' [AStr (summary_id summary)] w))"

definition process_incident ::
  "LLMClient \<Rightarrow> SentinelConfig \<Rightarrow> 'p Incident \<Rightarrow> 'p world \<Rightarrow> (exn + unit) \<times> 'p world" where
  \<comment> \<open>the body of the loop, lines 74 to 106\<close>
  "process_incident llm_client config inc w =
     (case properties inc of
        None \<Rightarrow> (Inl (Exception ''AttributeError''), w)
      | Some props \<Rightarrow>
         (let summary = incident_summary (name inc) props;
              w1 = logger INFO ''Processing incident %s'' [AStr (summary_id summary)] w
          in case analyse_incident llm_client (summary_title summary)
                    (summary_description summary) w1 of
               (Inl e, w2) \<Rightarrow> (Inl e, w2)
             | (Inr result, w2) \<Rightarrow> apply_recommendation config inc props summary result w2))"

fun triage_loop ::
  "LLMClient \<Rightarrow> SentinelConfig \<Rightarrow> 'p Incident list \<Rightarrow> 'p world \<Rightarrow> (exn + unit) \<times> 'p world" where
  "triage_loop llm_client config [] w = (Inr (), w)"
| "triage_loop llm_client config (inc # rest) w =
     (case process_incident llm_client config inc w of
        (Inl e, w') \<Rightarrow> (Inl e, w')
      | (Inr u, w') \<Rightarrow> triage_loop llm_client config rest w')"

definition run_triage :: "'p world \<Rightarrow> (exn + unit) \<times> 'p world" where
  \<comment> \<open>from \<open>load_config\<close> on; the set-up of the logging handlers and the reading of a
      \<open>.env\<close> file into the environment come before it\<close>
  "run_triage w =
     (case load_config w of
        Inl e \<Rightarrow> (Inl e, w)
      | Inr config \<Rightarrow>
         (case get_sentinel_client config w of
            (Inl e, w1) \<Rightarrow> (Inl e, w1)
          | (Inr u, w1) \<Rightarrow>
             (case LLMClient_init (dict_get (environ w1) ''LLM_MODEL'' ''gpt-4'') w1 of
                Inl (Exception m) \<Rightarrow>
                  (Inr (),
                   logger ERROR ''LLM client could not be initialised: %s''
                     [AExn (Exception m)] w1)
              | Inl (BaseException m) \<Rightarrow> (Inl (BaseException m), w1)
              | Inr llm_client \<Rightarrow>
                 (case list_active_incidents config w1 of
                    (Inl e, w2) \<Rightarrow> (Inl e, w2)
                  | (Inr incidents, w2) \<Rightarrow> triage_loop llm_client config incidents w2))))"

section \<open>What the theorems observe\<close>

fun is_Exception :: "exn \<Rightarrow> bool" where
  "is_Exception (Exception m) = True"
| "is_Exception (BaseException m) = False"

text \<open>The ids of the incidents whose processing the log announces, in order.\<close>

definition processing_id :: "log_entry \<Rightarrow> string list" where
  "processing_id e =
     (if fmt e = ''Processing incident %s''
      then (case args e of [AStr i] \<Rightarrow> [i] | _ \<Rightarrow> [])
      else [])"

definition processed :: "log_entry list \<Rightarrow> string list" where
  "processed es = concat (map processing_id es)"

definition status_of :: "'p Incident \<Rightarrow> IncidentStatus option" where
  "status_of inc = (case properties inc of None \<Rightarrow> None | Some q \<Rightarrow> status q)"

text \<open>
  The calls that the processing of one incident may make: the call to the provider, the
  re-fetch of this incident when its status is not \<open>ACTIVE\<close>, and the write of a record
  whose status is \<open>ACTIVE\<close>.
\<close>

definition body_call :: "'p Incident \<Rightarrow> 'p call \<Rightarrow> bool" where
  "body_call inc c =
     (case c of
        ChatCompletion m t d \<Rightarrow> True
      | GetIncident i \<Rightarrow> i = name inc \<and> status_of inc \<noteq> Some ACTIVE
      | CreateOrUpdate i rec \<Rightarrow> status_of rec = Some ACTIVE
      | ListIncidents \<Rightarrow> False)"

section \<open>Example inputs\<close>

text \<open>
  Three incidents, a configuration, a model client and a world in which every
  collaborator answers; the theorems below are run on them and on variations.
\<close>

definition inc1 :: "unit Incident" where
  "inc1 = \<lparr>name = ''inc-1'',
            properties = Some \<lparr>title = Some ''Suspicious login'',
              description = Some ''Multiple failed attempts'', severity = Some HIGH,
              status = Some NEW, classification = None, classification_comment = None\<rparr>\<rparr>"

definition inc2 :: "unit Incident" where
  "inc2 = \<lparr>name = ''inc-2'',
            properties = Some \<lparr>title = Some ''Port scan'', description = None,
              severity = Some LOW, status = Some ACTIVE,
              classification = Some ''Benign'', classification_comment = Some ''seen before''\<rparr>\<rparr>"

definition inc3 :: "unit Incident" where
  "inc3 = \<lparr>name = ''inc-3'',
            properties = Some \<lparr>title = None, description = Some ''Malware alert'',
              severity = None, status = Some NEW,
              classification = None, classification_comment = None\<rparr>\<rparr>"

definition cfg :: SentinelConfig where
  "cfg = \<lparr>subscription_id = ''sub'', resource_group = ''rg'', workspace_name = ''ws''\<rparr>"

definition gpt4 :: LLMClient where
  "gpt4 = \<lparr>model_name = ''gpt-4''\<rparr>"

definition world0 :: "unit world" where
  "world0 =
     \<lparr>environ = [''SUBSCRIPTION_ID'' \<mapsto> ''sub'', ''RESOURCE_GROUP'' \<mapsto> ''rg'',
                 ''WORKSPACE_NAME'' \<mapsto> ''ws'', ''OPENAI_API_KEY'' \<mapsto> ''key''],
      openai_installed = True,
      credential_exc = None,
      pager = Inr [inc1, inc2, inc3],
      get_exc = (\<lambda>i. None),
      put_exc = (\<lambda>i. None),
      completion = (\<lambda>m t d. Inr (Some '' Closed, Benign, routine activity. '')),
      store = [''inc-1'' \<mapsto> inc1, ''inc-2'' \<mapsto> inc2, ''inc-3'' \<mapsto> inc3],
      calls = [],
      logs = []\<rparr>"

text \<open>
  Variations: the provider times out on the first incident and the run is interrupted
  during the call for the second; the store's \<open>get\<close> fails; the store's
  \<open>create_or_update\<close> fails.
\<close>

definition world1 :: "unit world" where
  "world1 = world0\<lparr>completion := (\<lambda>m t d.
       if t = ''Suspicious login'' then Inl (Exception ''timeout'')
       else if t = ''Port scan'' then Inl (BaseException ''KeyboardInterrupt'')
       else Inr (Some ''ok''))\<rparr>"

definition world_get_fails :: "unit world" where
  "world_get_fails = world0\<lparr>get_exc := (\<lambda>i. Some (Exception ''503''))\<rparr>"

definition world_put_fails :: "unit world" where
  "world_put_fails = world0\<lparr>put_exc := (\<lambda>i. Some (Exception ''conflict''))\<rparr>"

definition world_llm_fails :: "unit world" where
  "world_llm_fails = world0\<lparr>completion := (\<lambda>m t d. Inl (Exception ''timeout''))\<rparr>"

section \<open>Strings\<close>

lemma startswith_prefix: "startswith s p = prefix p s"
  unfolding startswith_def
  by (metis append_take_drop_id prefix_def append_eq_conv_conj)

lemma lower_char_ascii_iff:
  assumes "97 \<le> (of_char l :: nat)" "(of_char l :: nat) \<le> 122"
  shows "lower_char c = l \<longleftrightarrow> c = l \<or> c = char_of ((of_char l :: nat) - 32)"
proof -
  let ?n = "of_char c :: nat"
  show ?thesis
  proof (cases "(65 \<le> ?n \<and> ?n \<le> 90) \<or> (192 \<le> ?n \<and> ?n \<le> 222 \<and> ?n \<noteq> 215)")
    case True
    then have lc: "lower_char c = char_of (?n + 32)" by (simp add: lower_char_def Let_def)
    have lt: "?n + 32 < 256" using True by auto
    have up: "of_char (lower_char c) = ?n + 32" using lc lt by simp
    show ?thesis
    proof
      assume "lower_char c = l"
      then have "(of_char l :: nat) = ?n + 32" using up by simp
      then have "?n = of_char l - 32" by simp
      then have "c = char_of ((of_char l :: nat) - 32)" by (metis char_of_char)
      then show "c = l \<or> c = char_of ((of_char l :: nat) - 32)" by simp
    next
      assume "c = l \<or> c = char_of ((of_char l :: nat) - 32)"
      then show "lower_char c = l"
      proof
        assume "c = l" with True assms show ?thesis by auto
      next
        assume c: "c = char_of ((of_char l :: nat) - 32)"
        have "(of_char l :: nat) - 32 < 256" using assms by simp
        then have "?n = of_char l - 32" using c by simp
        then have "?n + 32 = of_char l" using assms by simp
        then show ?thesis using lc by (metis char_of_char)
      qed
    qed
  next
    case False
    then have lc: "lower_char c = c" unfolding lower_char_def Let_def by (simp only: if_False)
    have "c \<noteq> char_of ((of_char l :: nat) - 32)"
    proof
      assume c: "c = char_of ((of_char l :: nat) - 32)"
      have "(of_char l :: nat) - 32 < 256" using assms by simp
      then have "?n = of_char l - 32" using c by simp
      with assms False show False by auto
    qed
    then show ?thesis using lc by auto
  qed
qed

lemma lower_prefix_clos:
  "prefix ''clos'' (lower t) \<longleftrightarrow>
     (\<exists>a b c d r. t = a # b # c # d # r \<and> a \<in> {CHR ''c'', CHR ''C''} \<and> b \<in> {CHR ''l'', CHR ''L''}
        \<and> c \<in> {CHR ''o'', CHR ''O''} \<and> d \<in> {CHR ''s'', CHR ''S''})"
proof -
  have up: "char_of (67::nat) = CHR ''C''" "char_of (76::nat) = CHR ''L''"
    "char_of (79::nat) = CHR ''O''" "char_of (83::nat) = CHR ''S''"
    by (simp_all add: char_of_eq_iff)
  have c: "\<And>x. lower_char x = CHR ''c'' \<longleftrightarrow> x = CHR ''c'' \<or> x = CHR ''C''"
    by (subst lower_char_ascii_iff) (simp_all add: up)
  have l: "\<And>x. lower_char x = CHR ''l'' \<longleftrightarrow> x = CHR ''l'' \<or> x = CHR ''L''"
    by (subst lower_char_ascii_iff) (simp_all add: up)
  have o: "\<And>x. lower_char x = CHR ''o'' \<longleftrightarrow> x = CHR ''o'' \<or> x = CHR ''O''"
    by (subst lower_char_ascii_iff) (simp_all add: up)
  have s: "\<And>x. lower_char x = CHR ''s'' \<longleftrightarrow> x = CHR ''s'' \<or> x = CHR ''S''"
    by (subst lower_char_ascii_iff) (simp_all add: up)
  show ?thesis
    unfolding lower_def prefix_def
    by (auto simp: map_eq_Cons_conv Cons_eq_map_conv c l o s)
qed

lemma lower_prefix_new:
  "prefix ''new'' (lower t) \<longleftrightarrow>
     (\<exists>a b c r. t = a # b # c # r \<and> a \<in> {CHR ''n'', CHR ''N''} \<and> b \<in> {CHR ''e'', CHR ''E''}
        \<and> c \<in> {CHR ''w'', CHR ''W''})"
proof -
  have up: "char_of (78::nat) = CHR ''N''" "char_of (69::nat) = CHR ''E''"
    "char_of (87::nat) = CHR ''W''"
    by (simp_all add: char_of_eq_iff)
  have n: "\<And>x. lower_char x = CHR ''n'' \<longleftrightarrow> x = CHR ''n'' \<or> x = CHR ''N''"
    by (subst lower_char_ascii_iff) (simp_all add: up)
  have e: "\<And>x. lower_char x = CHR ''e'' \<longleftrightarrow> x = CHR ''e'' \<or> x = CHR ''E''"
    by (subst lower_char_ascii_iff) (simp_all add: up)
  have w: "\<And>x. lower_char x = CHR ''w'' \<longleftrightarrow> x = CHR ''w'' \<or> x = CHR ''W''"
    by (subst lower_char_ascii_iff) (simp_all add: up)
  show ?thesis
    unfolding lower_def prefix_def
    by (auto simp: map_eq_Cons_conv Cons_eq_map_conv n e w)
qed

section \<open>The decision policy\<close>

text \<open>
  Claim C2. The recommended-status text is mapped by prefix on its lowercase form: a
  text whose lowercase form starts with "clos" gives \<open>CLOSED\<close>, one whose lowercase form
  starts with "new" gives \<open>NEW\<close>, and every other text gives \<open>ACTIVE\<close>; "Unknown" is
  such a text. The lowercase form starts with "clos" exactly when the first four
  characters are c, l, o, s in either case (\<open>lower_prefix_clos\<close>), and likewise for
  "new" (\<open>lower_prefix_new\<close>).
\<close>

theorem map_status_prefix:
  "(prefix ''clos'' (lower t) \<longrightarrow> map_status t = CLOSED) \<and>
   (prefix ''new'' (lower t) \<longrightarrow> map_status t = NEW) \<and>
   (\<not> prefix ''clos'' (lower t) \<and> \<not> prefix ''new'' (lower t) \<longrightarrow> map_status t = ACTIVE) \<and>
   \<not> prefix ''clos'' (lower ''Unknown'') \<and> \<not> prefix ''new'' (lower ''Unknown'')"
  by (auto simp: map_status_def startswith_prefix prefix_def lower_def lower_char_def)

theorem map_status_prefix_witness:
  "prefix ''clos'' (lower ''CLOSED - benign'') \<and> map_status ''CLOSED - benign'' = CLOSED \<and>
   prefix ''new'' (lower ''New'') \<and> map_status ''New'' = NEW \<and>
   \<not> prefix ''clos'' (lower ''Unknown'') \<and> \<not> prefix ''new'' (lower ''Unknown'') \<and>
   map_status ''Unknown'' = ACTIVE"
proof -
  have c: "prefix ''clos'' (lower ''CLOSED - benign'')" by code_simp
  have n: "prefix ''new'' (lower ''New'')" by code_simp
  have u: "\<not> prefix ''clos'' (lower ''Unknown'')" "\<not> prefix ''new'' (lower ''Unknown'')"
    by code_simp+
  show ?thesis
    using map_status_prefix [of "''CLOSED - benign''"] map_status_prefix [of "''New''"]
      map_status_prefix [of "''Unknown''"] c n u
    by blast
qed

section \<open>The log and the call trace\<close>

lemma logger_simps:
  "environ (logger l f as w) = environ w" "get_exc (logger l f as w) = get_exc w"
  "put_exc (logger l f as w) = put_exc w" "completion (logger l f as w) = completion w"
  "store (logger l f as w) = store w" "calls (logger l f as w) = calls w"
  "pager (logger l f as w) = pager w"
  "logs (logger l f as w) = logs w @ [\<lparr>lvl = l, fmt = f, args = as\<rparr>]"
  by (simp_all add: logger_def)

lemma called_simps:
  "environ (called c w) = environ w" "get_exc (called c w) = get_exc w"
  "put_exc (called c w) = put_exc w" "completion (called c w) = completion w"
  "store (called c w) = store w" "calls (called c w) = calls w @ [c]"
  "pager (called c w) = pager w"
  "logs (called c w) = logs w"
  by (simp_all add: called_def)

section \<open>The model invocation\<close>

text \<open>
  Claim C3. Whatever the title and the description, when the call to the provider
  raises an \<open>Exception\<close> (a transport or provider error), \<open>analyse_incident\<close> returns,
  and what it returns has \<open>recommended_status\<close> "Active", \<open>classification\<close>
  "Unspecified" and a comment that is not empty.
\<close>

theorem analyse_incident_failure:
  assumes "completion w (model_name self) t d = Inl (Exception m)"
  shows "\<exists>r c. fst (analyse_incident self t d w) = Inr r
           \<and> r ''recommended_status'' = Some ''Active''
           \<and> r ''classification'' = Some ''Unspecified''
           \<and> r ''comment'' = Some c \<and> c \<noteq> ''''"
  using assms by (simp add: analyse_incident_def llm_try_def Let_def called_simps)

theorem analyse_incident_failure_witness:
  "completion (world0\<lparr>completion := (\<lambda>m t d. Inl (Exception ''timeout''))\<rparr>) (model_name gpt4)
      ''Suspicious login'' ''Multiple failed attempts'' = Inl (Exception ''timeout'') \<and>
   (\<exists>r c. fst (analyse_incident gpt4 ''Suspicious login'' ''Multiple failed attempts''
               (world0\<lparr>completion := (\<lambda>m t d. Inl (Exception ''timeout''))\<rparr>)) = Inr r
           \<and> r ''recommended_status'' = Some ''Active''
           \<and> r ''classification'' = Some ''Unspecified''
           \<and> r ''comment'' = Some c \<and> c \<noteq> '''')"
  using analyse_incident_failure [of "world0\<lparr>completion := (\<lambda>m t d. Inl (Exception ''timeout''))\<rparr>"
      gpt4 "''Suspicious login''" "''Multiple failed attempts''" "''timeout''"]
  by simp

text \<open>
  Claim C6, as the code has it. When the provider answers with a text, \<open>analyse_incident\<close>
  returns \<open>recommended_status\<close> "Active", an empty \<open>classification\<close>, and as comment the
  answer with its leading and trailing whitespace removed; nothing is read out of the
  text, and the only effect is the call to the provider.
\<close>

theorem analyse_incident_success:
  assumes "completion w (model_name self) t d = Inr (Some content)"
  shows "\<exists>r. analyse_incident self t d w = (Inr r, called (ChatCompletion (model_name self) t d) w)
           \<and> r ''recommended_status'' = Some ''Active''
           \<and> r ''classification'' = Some ''''
           \<and> r ''comment'' = Some (strip content)"
  using assms by (simp add: analyse_incident_def llm_try_def Let_def called_simps)

theorem analyse_incident_success_witness:
  "completion world0 (model_name gpt4) ''Suspicious login'' ''Multiple failed attempts''
     = Inr (Some '' Closed, Benign, routine activity. '') \<and>
   (\<exists>r. analyse_incident gpt4 ''Suspicious login'' ''Multiple failed attempts'' world0
          = (Inr r, called (ChatCompletion (model_name gpt4) ''Suspicious login''
                              ''Multiple failed attempts'') world0)
           \<and> r ''recommended_status'' = Some ''Active''
           \<and> r ''classification'' = Some ''''
           \<and> r ''comment'' = Some (strip '' Closed, Benign, routine activity. ''))"
proof -
  have h: "completion world0 (model_name gpt4) ''Suspicious login'' ''Multiple failed attempts''
     = Inr (Some '' Closed, Benign, routine activity. '')"
    by (simp add: world0_def)
  show ?thesis using h analyse_incident_success [OF h] by simp
qed

lemma strip_example:
  "strip '' Closed, Benign, routine activity. '' = ''Closed, Benign, routine activity.''"
  by code_simp

text \<open>
  The claim as the spec words it (the whole reply is the comment) fails on an answer
  that starts or ends with whitespace: the comment is the stripped text.
\<close>

theorem analyse_incident_whole_reply_counterexample:
  "completion world0 (model_name gpt4) ''Suspicious login'' ''Multiple failed attempts''
     = Inr (Some '' Closed, Benign, routine activity. '') \<and>
   dict_get (projr (fst (analyse_incident gpt4 ''Suspicious login'' ''Multiple failed attempts''
                           world0))) ''comment'' '''' = ''Closed, Benign, routine activity.'' \<and>
   ''Closed, Benign, routine activity.'' \<noteq> '' Closed, Benign, routine activity. ''"
  by (simp add: world0_def analyse_incident_def llm_try_def Let_def called_simps dict_get_def
      strip_example)

section \<open>The summary\<close>

lemma is_active_properties: "is_active inc \<Longrightarrow> \<exists>props. properties inc = Some props"
  by (cases "properties inc") (simp_all add: is_active_def)

text \<open>
  Claim C10, as the code has it. The summary of an incident takes the incident's name as
  id; a title that is absent or empty becomes "(no title)", a description that is absent
  or empty becomes "(no description)", an absent severity or status becomes "Unknown";
  a title or description that is present and not empty is kept as it is, and a present
  severity or status is rendered as the name of its member. The construction is total
  on the properties, and every incident that \<open>list_active_incidents\<close> keeps has
  properties.
\<close>

theorem incident_summary_defaults:
  "incident_summary n props =
     \<lparr>summary_id = n,
      summary_title = (case title props of None \<Rightarrow> ''(no title)''
                       | Some s \<Rightarrow> if s = '''' then ''(no title)'' else s),
      summary_description = (case description props of None \<Rightarrow> ''(no description)''
                       | Some s \<Rightarrow> if s = '''' then ''(no description)'' else s),
      summary_severity = (case severity props of None \<Rightarrow> ''Unknown'' | Some s \<Rightarrow> severity_name s),
      summary_status = (case status props of None \<Rightarrow> ''Unknown'' | Some s \<Rightarrow> status_name s)\<rparr>
   \<and> (is_active inc \<longrightarrow> properties inc \<noteq> None)"
  using is_active_properties [of inc]
  by (auto simp add: incident_summary_def or_str_def split: option.splits)

theorem incident_summary_defaults_witness:
  "is_active inc3 \<and> properties inc3 \<noteq> None \<and>
   incident_summary (name inc3) (the (properties inc3)) =
     \<lparr>summary_id = ''inc-3'', summary_title = ''(no title)'',
      summary_description = ''Malware alert'', summary_severity = ''Unknown'',
      summary_status = ''NEW''\<rparr>"
  using incident_summary_defaults [of "name inc3" "the (properties inc3)" inc3]
  by (simp add: inc3_def is_active_def)

text \<open>
  The claim as the spec words it (a present value is carried through unchanged) fails on
  a description that is present and empty: the summary has the placeholder.
\<close>

theorem incident_summary_empty_description_counterexample:
  "summary_description (incident_summary ''inc-9''
      \<lparr>title = Some ''Port scan'', description = Some [], severity = Some HIGH,
       status = Some NEW, classification = None, classification_comment = None\<rparr>)
     = ''(no description)''
   \<and> ''(no description)'' \<noteq> []"
  by (simp add: incident_summary_def or_str_def)

section \<open>Update application\<close>

text \<open>
  Claim C7. When the re-fetch raises nothing and finds no incident under the id, the
  update returns normally: the only call to the store is the re-fetch (nothing is
  written), the store is as before, and one warning is logged.
\<close>

theorem update_incident_status_absent:
  assumes "get_exc w (name incident) = None" and "store w (name incident) = None"
  shows "\<exists>w'. update_incident_status config incident status' classification' comment w = (Inr (), w')
           \<and> calls w' = calls w @ [GetIncident (name incident)]
           \<and> store w' = store w
           \<and> logs w' = logs w @ [\<lparr>lvl = WARNING, fmt = ''Incident %s not found'',
                                    args = [AStr (name incident)]\<rparr>]"
  using assms
  by (simp add: update_incident_status_def update_try_def Let_def called_simps logger_simps)

theorem update_incident_status_absent_witness:
  "get_exc (world0\<lparr>store := Map.empty\<rparr>) (name inc1) = None \<and>
   store (world0\<lparr>store := Map.empty\<rparr>) (name inc1) = None \<and>
   (\<exists>w'. update_incident_status cfg inc1 ACTIVE None (Some ''note'') (world0\<lparr>store := Map.empty\<rparr>)
            = (Inr (), w')
           \<and> calls w' = [GetIncident ''inc-1'']
           \<and> store w' = Map.empty
           \<and> logs w' = [\<lparr>lvl = WARNING, fmt = ''Incident %s not found'',
                          args = [AStr ''inc-1'']\<rparr>])"
  using update_incident_status_absent [of "world0\<lparr>store := Map.empty\<rparr>" inc1 cfg ACTIVE None
      "Some ''note''"]
  by (simp add: world0_def inc1_def)

section \<open>What each step does to the world\<close>

lemma processed_append: "processed (xs @ ys) = processed xs @ processed ys"
  by (simp add: processed_def)

lemma processed_other:
  "f \<noteq> ''Processing incident %s'' \<Longrightarrow> processed (xs @ [\<lparr>lvl = l, fmt = f, args = as\<rparr>]) = processed xs"
  by (simp add: processed_def processing_id_def)

lemma status_modified: "status (modified p s c m) = Some s"
  by (simp add: modified_def Let_def)

lemma update_try_get_raises:
  "get_exc w (name incident) = Some e \<Longrightarrow>
   update_try config incident s c m w = (Inl e, called (GetIncident (name incident)) w)"
  by (simp add: update_try_def Let_def called_simps)

lemma update_try_absent:
  "get_exc w (name incident) = None \<Longrightarrow> store w (name incident) = None \<Longrightarrow>
   update_try config incident s c m w =
     (Inr (), logger WARNING ''Incident %s not found'' [AStr (name incident)]
                (called (GetIncident (name incident)) w))"
  by (simp add: update_try_def Let_def called_simps)

lemma update_try_no_properties:
  "get_exc w (name incident) = None \<Longrightarrow> store w (name incident) = Some current \<Longrightarrow>
   properties current = None \<Longrightarrow>
   update_try config incident s c m w =
     (Inl (Exception ''AttributeError''), called (GetIncident (name incident)) w)"
  by (simp add: update_try_def Let_def called_simps)

lemma update_try_put_raises:
  "get_exc w (name incident) = None \<Longrightarrow> store w (name incident) = Some current \<Longrightarrow>
   properties current = Some p \<Longrightarrow> put_exc w (name current) = Some e \<Longrightarrow>
   update_try config incident s c m w =
     (Inl e, called (CreateOrUpdate (name current) (current\<lparr>properties := Some (modified p s c m)\<rparr>))
               (called (GetIncident (name incident)) w))"
  by (simp add: update_try_def Let_def called_simps)

lemma update_try_written:
  "get_exc w (name incident) = None \<Longrightarrow> store w (name incident) = Some current \<Longrightarrow>
   properties current = Some p \<Longrightarrow> put_exc w (name current) = None \<Longrightarrow>
   update_try config incident s c m w =
     (Inr (),
      logger INFO ''Updated incident %s to status %s with classification %s''
        [AStr (name incident), AStatus s, AOptStr c]
        ((called (CreateOrUpdate (name current) (current\<lparr>properties := Some (modified p s c m)\<rparr>))
               (called (GetIncident (name incident)) w))
          \<lparr>store := (store w)(name current \<mapsto> current\<lparr>properties := Some (modified p s c m)\<rparr>)\<rparr>))"
  by (simp add: update_try_def Let_def called_simps)

lemma update_try_shape:
  assumes "update_try config incident s c m w = (r, w')"
  shows "(\<exists>cs. calls w' = calls w @ GetIncident (name incident) # cs
            \<and> (\<forall>call \<in> set cs. \<exists>i rec. call = CreateOrUpdate i rec \<and> status_of rec = Some s))
       \<and> completion w' = completion w \<and> get_exc w' = get_exc w \<and> put_exc w' = put_exc w
       \<and> processed (logs w') = processed (logs w)
       \<and> (case r of Inr u \<Rightarrow> True
                 | Inl x \<Rightarrow> x = Exception ''AttributeError'' \<or> get_exc w (name incident) = Some x
                      \<or> (\<exists>i. put_exc w i = Some x))"
proof (cases "get_exc w (name incident)")
  case (Some e)
  from update_try_get_raises [OF Some] assms show ?thesis
    by (auto simp add: called_simps Some)
next
  case None
  note g = None
  show ?thesis
  proof (cases "store w (name incident)")
    case None
    from update_try_absent [OF g None] assms show ?thesis
      by (auto simp add: called_simps logger_simps processed_other)
  next
    case (Some current)
    note st = Some
    show ?thesis
    proof (cases "properties current")
      case None
      from update_try_no_properties [OF g st None] assms show ?thesis
        by (auto simp add: called_simps)
    next
      case (Some p)
      note pr = Some
      show ?thesis
      proof (cases "put_exc w (name current)")
        case (Some e)
        from update_try_put_raises [OF g st pr Some] assms
        have r: "r = Inl e"
          and w': "w' = called (CreateOrUpdate (name current)
                           (current\<lparr>properties := Some (modified p s c m)\<rparr>))
                         (called (GetIncident (name incident)) w)"
          by simp_all
        have "calls w' = calls w @ GetIncident (name incident) #
                [CreateOrUpdate (name current) (current\<lparr>properties := Some (modified p s c m)\<rparr>)]"
          by (simp add: w' called_simps)
        moreover have "status_of (current\<lparr>properties := Some (modified p s c m)\<rparr>) = Some s"
          by (simp add: status_of_def status_modified)
        ultimately have "\<exists>cs. calls w' = calls w @ GetIncident (name incident) # cs
            \<and> (\<forall>call \<in> set cs. \<exists>i rec. call = CreateOrUpdate i rec \<and> status_of rec = Some s)"
          by (intro exI [of _ "[CreateOrUpdate (name current)
                  (current\<lparr>properties := Some (modified p s c m)\<rparr>)]"]) simp
        then show ?thesis using Some by (auto simp add: r w' called_simps)
      next
        case None
        from update_try_written [OF g st pr None] assms
        have r: "r = Inr ()"
          and w': "w' = logger INFO ''Updated incident %s to status %s with classification %s''
                    [AStr (name incident), AStatus s, AOptStr c]
                    ((called (CreateOrUpdate (name current)
                               (current\<lparr>properties := Some (modified p s c m)\<rparr>))
                       (called (GetIncident (name incident)) w))
                     \<lparr>store := (store w)(name current \<mapsto>
                                  current\<lparr>properties := Some (modified p s c m)\<rparr>)\<rparr>)"
          by simp_all
        have "calls w' = calls w @ GetIncident (name incident) #
                [CreateOrUpdate (name current) (current\<lparr>properties := Some (modified p s c m)\<rparr>)]"
          by (simp add: w' called_simps logger_simps)
        moreover have "status_of (current\<lparr>properties := Some (modified p s c m)\<rparr>) = Some s"
          by (simp add: status_of_def status_modified)
        ultimately have "\<exists>cs. calls w' = calls w @ GetIncident (name incident) # cs
            \<and> (\<forall>call \<in> set cs. \<exists>i rec. call = CreateOrUpdate i rec \<and> status_of rec = Some s)"
          by (intro exI [of _ "[CreateOrUpdate (name current)
                  (current\<lparr>properties := Some (modified p s c m)\<rparr>)]"]) simp
        then show ?thesis
          by (simp add: r w' called_simps logger_simps processed_other)
      qed
    qed
  qed
qed

lemma update_incident_status_shape:
  assumes "update_incident_status config incident s c m w = (r, w')"
  shows "(\<exists>cs. calls w' = calls w @ GetIncident (name incident) # cs
            \<and> (\<forall>call \<in> set cs. \<exists>i rec. call = CreateOrUpdate i rec \<and> status_of rec = Some s))
       \<and> completion w' = completion w \<and> get_exc w' = get_exc w \<and> put_exc w' = put_exc w
       \<and> processed (logs w') = processed (logs w)
       \<and> (case r of Inr u \<Rightarrow> True
                 | Inl x \<Rightarrow> \<not> is_Exception x
                      \<and> (get_exc w (name incident) = Some x \<or> (\<exists>i. put_exc w i = Some x)))"
proof (cases "update_try config incident s c m w")
  case (Pair r1 w1)
  note sh = update_try_shape [OF Pair]
  show ?thesis
  proof (cases r1)
    case (Inr u)
    with Pair assms have "r = Inr u" "w' = w1" by (simp_all add: update_incident_status_def)
    with sh show ?thesis by simp
  next
    case (Inl x)
    show ?thesis
    proof (cases x)
      case (Exception e)
      with Pair Inl assms have "r = Inr ()"
        "w' = logger ERROR ''Error updating incident %s: %s''
                [AStr (name incident), AExn (Exception e)] w1"
        by (simp_all add: update_incident_status_def)
      with sh show ?thesis by (simp add: logger_simps processed_other)
    next
      case (BaseException e)
      with Pair Inl assms have "r = Inl (BaseException e)" "w' = w1"
        by (simp_all add: update_incident_status_def)
      with sh Inl BaseException show ?thesis by simp
    qed
  qed
qed

lemma analyse_incident_shape:
  assumes "analyse_incident self t d w = (r, w')"
  shows "calls w' = calls w @ [ChatCompletion (model_name self) t d]
       \<and> store w' = store w \<and> completion w' = completion w
       \<and> get_exc w' = get_exc w \<and> put_exc w' = put_exc w
       \<and> processed (logs w') = processed (logs w)
       \<and> (case r of Inr res \<Rightarrow> dict_get res ''recommended_status'' ''Active'' = ''Active''
                 | Inl x \<Rightarrow> \<not> is_Exception x
                      \<and> completion w (model_name self) t d = Inl x)"
proof (cases "llm_try self t d (called (ChatCompletion (model_name self) t d) w)")
  case (Inr res)
  then have "res ''recommended_status'' = Some ''Active''"
    by (auto simp add: llm_try_def split: sum.splits option.splits)
  moreover from Inr assms have "r = Inr res" "w' = called (ChatCompletion (model_name self) t d) w"
    by (simp_all add: analyse_incident_def Let_def)
  ultimately show ?thesis
    by (simp add: called_simps dict_get_def)
next
  case (Inl x)
  show ?thesis
  proof (cases x)
    case (Exception e)
    with Inl assms show ?thesis
      by (auto simp add: analyse_incident_def Let_def called_simps logger_simps dict_get_def
          processed_other)
  next
    case (BaseException e)
    from Inl have "completion w (model_name self) t d = Inl x"
      by (auto simp add: llm_try_def called_simps BaseException split: sum.splits option.splits)
    moreover from Inl BaseException assms
    have "r = Inl x" "w' = called (ChatCompletion (model_name self) t d) w"
      by (simp_all add: analyse_incident_def Let_def)
    ultimately show ?thesis using BaseException
      by (simp add: called_simps)
  qed
qed

lemma map_status_Active: "map_status ''Active'' = ACTIVE"
  by (simp add: map_status_def startswith_def lower_def lower_char_def)

lemma process_incident_shape:
  assumes "properties inc = Some props"
    and "process_incident llm config inc w = (r, w')"
  shows "(\<exists>cs. calls w' = calls w @ cs \<and> (\<forall>call \<in> set cs. body_call inc call))
       \<and> completion w' = completion w \<and> get_exc w' = get_exc w \<and> put_exc w' = put_exc w
       \<and> processed (logs w') = processed (logs w) @ [name inc]
       \<and> (case r of Inr u \<Rightarrow> True
                 | Inl x \<Rightarrow> \<not> is_Exception x
                      \<and> ((\<exists>m t d. completion w m t d = Inl x)
                           \<or> (\<exists>i. get_exc w i = Some x) \<or> (\<exists>i. put_exc w i = Some x)))"
proof -
  let ?s = "incident_summary (name inc) props"
  let ?w1 = "logger INFO ''Processing incident %s'' [AStr (summary_id ?s)] w"
  let ?c = "ChatCompletion (model_name llm) (summary_title ?s) (summary_description ?s)"
  have id: "summary_id ?s = name inc" by (simp add: incident_summary_def)
  have p1: "processed (logs ?w1) = processed (logs w) @ [name inc]"
    by (simp add: logger_simps processed_def processing_id_def id)
  obtain ra w2 where a: "analyse_incident llm (summary_title ?s) (summary_description ?s) ?w1 = (ra, w2)"
    by (cases "analyse_incident llm (summary_title ?s) (summary_description ?s) ?w1")
  note ash = analyse_incident_shape [OF a]
  have c2: "calls w2 = calls w @ [?c]" using ash by (simp add: logger_simps)
  have o2: "completion w2 = completion w" "get_exc w2 = get_exc w" "put_exc w2 = put_exc w"
    using ash by (simp_all add: logger_simps)
  have l2: "processed (logs w2) = processed (logs w) @ [name inc]" using ash p1 by simp
  have bc: "body_call inc ?c" by (simp add: body_call_def)
  show ?thesis
  proof (cases ra)
    case (Inl x)
    with a assms have rw: "r = Inl x" "w' = w2"
      by (simp_all add: process_incident_def apply_recommendation_def Let_def)
    have "\<exists>cs. calls w' = calls w @ cs \<and> (\<forall>call \<in> set cs. body_call inc call)"
      using c2 bc rw by (intro exI [of _ "[?c]"]) simp
    moreover have "\<not> is_Exception x \<and> (\<exists>m t d. completion w m t d = Inl x)"
      using ash Inl by (auto simp add: logger_simps)
    ultimately show ?thesis using rw o2 l2 by simp
  next
    case (Inr res)
    with ash have rec: "map_status (dict_get res ''recommended_status'' ''Active'') = ACTIVE"
      by (simp add: map_status_Active)
    show ?thesis
    proof (cases "Some ACTIVE \<noteq> status props")
      case False
      with a Inr rec assms have rw: "r = Inr ()"
        "w' = logger INFO ''No status change for incident %s'' [AStr (summary_id ?s)] w2"
        by (simp_all add: process_incident_def apply_recommendation_def Let_def)
      have "\<exists>cs. calls w' = calls w @ cs \<and> (\<forall>call \<in> set cs. body_call inc call)"
        using c2 bc rw by (intro exI [of _ "[?c]"]) (simp add: logger_simps)
      then show ?thesis using rw o2 l2 by (simp add: logger_simps processed_other)
    next
      case True
      with a Inr rec assms have u: "update_incident_status config inc ACTIVE
          (or_None (res ''classification'')) (or_None (res ''comment'')) w2 = (r, w')"
        by (simp add: process_incident_def apply_recommendation_def Let_def)
      note ush = update_incident_status_shape [OF u]
      from ush obtain cs where cs: "calls w' = calls w2 @ GetIncident (name inc) # cs"
        "\<forall>call \<in> set cs. \<exists>i rec. call = CreateOrUpdate i rec \<and> status_of rec = Some ACTIVE"
        by blast
      have g: "body_call inc (GetIncident (name inc))"
        using True assms by (simp add: body_call_def status_of_def)
      have w: "\<forall>call \<in> set cs. body_call inc call"
        using cs(2) by (auto simp add: body_call_def)
      have "calls w' = calls w @ (?c # GetIncident (name inc) # cs)"
        using cs c2 by simp
      moreover have "\<forall>call \<in> set (?c # GetIncident (name inc) # cs). body_call inc call"
        using bc g w by simp
      ultimately have c: "\<exists>cs. calls w' = calls w @ cs \<and> (\<forall>call \<in> set cs. body_call inc call)"
        by blast
      have e: "case r of Inr u \<Rightarrow> True
                 | Inl x \<Rightarrow> \<not> is_Exception x
                      \<and> ((\<exists>m t d. completion w m t d = Inl x)
                           \<or> (\<exists>i. get_exc w i = Some x) \<or> (\<exists>i. put_exc w i = Some x))"
        using ush o2 by (cases r) auto
      show ?thesis using c e ush o2 l2 by simp
    qed
  qed
qed

section \<open>What an update writes, and what happens when it fails\<close>

text \<open>
  Claim C9. When the re-fetch finds the incident, the record submitted is the re-fetched
  record with three assignments to its properties: the status is set in every case; the
  classification is set when a classification that is not empty was given, and keeps its
  value when none or an empty one was given; the same for the classification comment.
  The title, the description, the severity and every other field of the properties keep
  their values, and so does the rest of the record. The two calls to the store are the
  re-fetch and the submission, whether the submission then succeeds or not.
\<close>

theorem update_incident_status_fields:
  assumes "get_exc w (name incident) = None"
    and "store w (name incident) = Some current"
    and "properties current = Some p"
  shows "\<exists>r w' q. update_incident_status config incident status' classification' comment w = (r, w')
           \<and> calls w' = calls w @ [GetIncident (name incident),
                 CreateOrUpdate (name current) (current\<lparr>properties := Some q\<rparr>)]
           \<and> status q = Some status'
           \<and> classification q = (case classification' of
                 None \<Rightarrow> classification p
               | Some c \<Rightarrow> if c = '''' then classification p else Some c)
           \<and> classification_comment q = (case comment of
                 None \<Rightarrow> classification_comment p
               | Some c \<Rightarrow> if c = '''' then classification_comment p else Some c)
           \<and> title q = title p \<and> description q = description p \<and> severity q = severity p
           \<and> IncidentProperties.more q = IncidentProperties.more p"
proof -
  let ?q = "modified p status' classification' comment"
  have q: "status ?q = Some status'"
    "classification ?q = (case classification' of
                 None \<Rightarrow> classification p
               | Some c \<Rightarrow> if c = '''' then classification p else Some c)"
    "classification_comment ?q = (case comment of
                 None \<Rightarrow> classification_comment p
               | Some c \<Rightarrow> if c = '''' then classification_comment p else Some c)"
    "title ?q = title p" "description ?q = description p" "severity ?q = severity p"
    "IncidentProperties.more ?q = IncidentProperties.more p"
    by (simp_all add: modified_def Let_def truthy_def split: option.splits)
  have "\<exists>r w'. update_incident_status config incident status' classification' comment w = (r, w')
           \<and> calls w' = calls w @ [GetIncident (name incident),
                 CreateOrUpdate (name current) (current\<lparr>properties := Some ?q\<rparr>)]"
  proof (cases "put_exc w (name current)")
    case None
    from update_try_written [OF assms None] show ?thesis
      by (simp add: update_incident_status_def called_simps logger_simps)
  next
    case (Some e)
    from update_try_put_raises [OF assms Some] show ?thesis
      by (cases e) (simp_all add: update_incident_status_def called_simps logger_simps)
  qed
  with q show ?thesis by blast
qed

theorem update_incident_status_fields_witness:
  "get_exc world0 (name inc2) = None \<and> store world0 (name inc2) = Some inc2 \<and>
   properties inc2 = Some (the (properties inc2)) \<and>
   (\<exists>r w' q. update_incident_status cfg inc2 CLOSED (Some '''') None world0 = (r, w')
      \<and> calls w' = [GetIncident ''inc-2'', CreateOrUpdate ''inc-2'' (inc2\<lparr>properties := Some q\<rparr>)]
      \<and> status q = Some CLOSED \<and> classification q = Some ''Benign''
      \<and> classification_comment q = Some ''seen before''
      \<and> title q = Some ''Port scan'' \<and> description q = None \<and> severity q = Some LOW)"
proof -
  have h: "get_exc world0 (name inc2) = None" "store world0 (name inc2) = Some inc2"
    "properties inc2 = Some (the (properties inc2))"
    by (simp_all add: world0_def inc2_def)
  from update_incident_status_fields [OF h, of cfg CLOSED "Some ''''" None] h show ?thesis
    by (simp add: world0_def inc2_def)
qed

text \<open>
  Claim C8, as the code has it. An \<open>Exception\<close> raised by the re-fetch or by the
  submission is caught inside the update, which then returns normally, leaves the store
  as it was, and logs one error whose arguments are the incident's name and the
  exception; the status that was attempted is not among them. With a store that raises
  nothing but \<open>Exception\<close>s the update always returns normally, and when the provider
  raises nothing else either, the loop goes from an incident to the rest of the list.
\<close>

theorem update_incident_status_failure:
  "(get_exc w (name incident) = Some (Exception e) \<longrightarrow>
      (\<exists>w'. update_incident_status config incident status' classification' comment w = (Inr (), w')
         \<and> logs w' = logs w @ [\<lparr>lvl = ERROR, fmt = ''Error updating incident %s: %s'',
                                 args = [AStr (name incident), AExn (Exception e)]\<rparr>]
         \<and> calls w' = calls w @ [GetIncident (name incident)]
         \<and> store w' = store w))
   \<and> (get_exc w (name incident) = None \<and> store w (name incident) = Some current
        \<and> properties current = Some p \<and> put_exc w (name current) = Some (Exception e) \<longrightarrow>
      (\<exists>w'. update_incident_status config incident status' classification' comment w = (Inr (), w')
         \<and> logs w' = logs w @ [\<lparr>lvl = ERROR, fmt = ''Error updating incident %s: %s'',
                                 args = [AStr (name incident), AExn (Exception e)]\<rparr>]
         \<and> store w' = store w))
   \<and> ((\<forall>x. get_exc w (name incident) = Some x \<longrightarrow> is_Exception x)
        \<and> (\<forall>i x. put_exc w i = Some x \<longrightarrow> is_Exception x) \<longrightarrow>
      fst (update_incident_status config incident status' classification' comment w) = Inr ())
   \<and> ((\<forall>m t d x. completion w m t d = Inl x \<longrightarrow> is_Exception x)
        \<and> (\<forall>i x. get_exc w i = Some x \<longrightarrow> is_Exception x)
        \<and> (\<forall>i x. put_exc w i = Some x \<longrightarrow> is_Exception x)
        \<and> properties inc = Some props \<longrightarrow>
      triage_loop llm_client config (inc # rest) w =
        triage_loop llm_client config rest (snd (process_incident llm_client config inc w)))"
proof (intro conjI impI)
  assume g: "get_exc w (name incident) = Some (Exception e)"
  from update_try_get_raises [OF g]
  show "\<exists>w'. update_incident_status config incident status' classification' comment w = (Inr (), w')
         \<and> logs w' = logs w @ [\<lparr>lvl = ERROR, fmt = ''Error updating incident %s: %s'',
                                 args = [AStr (name incident), AExn (Exception e)]\<rparr>]
         \<and> calls w' = calls w @ [GetIncident (name incident)]
         \<and> store w' = store w"
    by (simp add: update_incident_status_def called_simps logger_simps)
next
  assume h: "get_exc w (name incident) = None \<and> store w (name incident) = Some current
        \<and> properties current = Some p \<and> put_exc w (name current) = Some (Exception e)"
  then have "update_try config incident status' classification' comment w =
     (Inl (Exception e),
      called (CreateOrUpdate (name current)
                (current\<lparr>properties := Some (modified p status' classification' comment)\<rparr>))
        (called (GetIncident (name incident)) w))"
    by (intro update_try_put_raises) simp_all
  then show "\<exists>w'. update_incident_status config incident status' classification' comment w = (Inr (), w')
         \<and> logs w' = logs w @ [\<lparr>lvl = ERROR, fmt = ''Error updating incident %s: %s'',
                                 args = [AStr (name incident), AExn (Exception e)]\<rparr>]
         \<and> store w' = store w"
    by (simp add: update_incident_status_def called_simps logger_simps)
next
  assume h: "(\<forall>x. get_exc w (name incident) = Some x \<longrightarrow> is_Exception x)
        \<and> (\<forall>i x. put_exc w i = Some x \<longrightarrow> is_Exception x)"
  obtain r w' where u: "update_incident_status config incident status' classification' comment w = (r, w')"
    by (cases "update_incident_status config incident status' classification' comment w")
  from update_incident_status_shape [OF u] h have "r = Inr ()"
    by (cases r) auto
  with u show "fst (update_incident_status config incident status' classification' comment w) = Inr ()"
    by simp
next
  assume h: "(\<forall>m t d x. completion w m t d = Inl x \<longrightarrow> is_Exception x)
        \<and> (\<forall>i x. get_exc w i = Some x \<longrightarrow> is_Exception x)
        \<and> (\<forall>i x. put_exc w i = Some x \<longrightarrow> is_Exception x)
        \<and> properties inc = Some props"
  obtain r w' where p: "process_incident llm_client config inc w = (r, w')"
    by (cases "process_incident llm_client config inc w")
  from h have "properties inc = Some props" by simp
  from process_incident_shape [OF this p] h have "r = Inr ()"
    by (cases r) auto
  with p show "triage_loop llm_client config (inc # rest) w =
        triage_loop llm_client config rest (snd (process_incident llm_client config inc w))"
    by simp
qed

theorem update_incident_status_failure_witness:
  "get_exc world_get_fails (name inc1) = Some (Exception ''503'')
   \<and> (\<exists>w'. update_incident_status cfg inc1 ACTIVE None None world_get_fails = (Inr (), w')
         \<and> logs w' = logs world_get_fails @ [\<lparr>lvl = ERROR, fmt = ''Error updating incident %s: %s'',
                        args = [AStr (name inc1), AExn (Exception ''503'')]\<rparr>]
         \<and> calls w' = calls world_get_fails @ [GetIncident (name inc1)]
         \<and> store w' = store world_get_fails)
   \<and> (get_exc world_put_fails (name inc1) = None
      \<and> store world_put_fails (name inc1) = Some inc1
      \<and> properties inc1 = Some (the (properties inc1))
      \<and> put_exc world_put_fails (name inc1) = Some (Exception ''conflict''))
   \<and> (\<exists>w'. update_incident_status cfg inc1 ACTIVE None None world_put_fails = (Inr (), w')
         \<and> logs w' = logs world_put_fails @ [\<lparr>lvl = ERROR, fmt = ''Error updating incident %s: %s'',
                        args = [AStr (name inc1), AExn (Exception ''conflict'')]\<rparr>]
         \<and> store w' = store world_put_fails)
   \<and> fst (update_incident_status cfg inc1 ACTIVE None None world0) = Inr ()
   \<and> triage_loop gpt4 cfg [inc1, inc2, inc3] world_put_fails =
       triage_loop gpt4 cfg [inc2, inc3] (snd (process_incident gpt4 cfg inc1 world_put_fails))"
proof -
  have a: "get_exc world_get_fails (name inc1) = Some (Exception ''503'')"
    by (simp add: world_get_fails_def)
  have b: "get_exc world_put_fails (name inc1) = None
      \<and> store world_put_fails (name inc1) = Some inc1
      \<and> properties inc1 = Some (the (properties inc1))
      \<and> put_exc world_put_fails (name inc1) = Some (Exception ''conflict'')"
    by (simp add: world_put_fails_def world0_def inc1_def)
  have c: "(\<forall>x. get_exc world0 (name inc1) = Some x \<longrightarrow> is_Exception x)
      \<and> (\<forall>i x. put_exc world0 i = Some x \<longrightarrow> is_Exception x)"
    by (simp add: world0_def)
  have d: "(\<forall>m t d x. completion world_put_fails m t d = Inl x \<longrightarrow> is_Exception x)
      \<and> (\<forall>i x. get_exc world_put_fails i = Some x \<longrightarrow> is_Exception x)
      \<and> (\<forall>i x. put_exc world_put_fails i = Some x \<longrightarrow> is_Exception x)
      \<and> properties inc1 = Some (the (properties inc1))"
    by (auto simp add: world_put_fails_def world0_def inc1_def)
  note t1 = update_incident_status_failure [where w = world_get_fails and incident = inc1
      and e = "''503''" and config = cfg and status' = ACTIVE and classification' = None
      and comment = None]
  note t2 = update_incident_status_failure [where w = world_put_fails and incident = inc1
      and e = "''conflict''" and config = cfg and status' = ACTIVE and classification' = None
      and comment = None and current = inc1 and p = "the (properties inc1)"]
  note t3 = update_incident_status_failure [where w = world0 and incident = inc1
      and config = cfg and status' = ACTIVE and classification' = None and comment = None]
  note t4 = update_incident_status_failure [where w = world_put_fails and inc = inc1
      and props = "the (properties inc1)" and llm_client = gpt4 and config = cfg
      and rest = "[inc2, inc3]"]
  from t1 [THEN conjunct1, THEN mp, OF a] have A: "\<exists>w'. update_incident_status cfg inc1 ACTIVE None None world_get_fails = (Inr (), w')
         \<and> logs w' = logs world_get_fails @ [\<lparr>lvl = ERROR, fmt = ''Error updating incident %s: %s'',
                        args = [AStr (name inc1), AExn (Exception ''503'')]\<rparr>]
         \<and> calls w' = calls world_get_fails @ [GetIncident (name inc1)]
         \<and> store w' = store world_get_fails"
    .
  from t2 [THEN conjunct2, THEN conjunct1, THEN mp, OF b] have B: "\<exists>w'. update_incident_status cfg inc1 ACTIVE None None world_put_fails = (Inr (), w')
         \<and> logs w' = logs world_put_fails @ [\<lparr>lvl = ERROR, fmt = ''Error updating incident %s: %s'',
                        args = [AStr (name inc1), AExn (Exception ''conflict'')]\<rparr>]
         \<and> store w' = store world_put_fails"
    .
  from t3 [THEN conjunct2, THEN conjunct2, THEN conjunct1, THEN mp, OF c]
  have C: "fst (update_incident_status cfg inc1 ACTIVE None None world0) = Inr ()"
    .
  from t4 [THEN conjunct2, THEN conjunct2, THEN conjunct2, THEN mp, OF d]
  have D: "triage_loop gpt4 cfg [inc1, inc2, inc3] world_put_fails =
       triage_loop gpt4 cfg [inc2, inc3] (snd (process_incident gpt4 cfg inc1 world_put_fails))"
    .
  from a A b B C D show ?thesis by blast
qed

text \<open>
  The claim as the spec words it (the failure is logged with the attempted status) fails:
  the error logged for a failed submission of status \<open>ACTIVE\<close> carries the id and the
  exception only.
\<close>

theorem update_incident_status_log_counterexample:
  "put_exc world_put_fails ''inc-1'' = Some (Exception ''conflict'') \<and>
   logs (snd (update_incident_status cfg inc1 ACTIVE None (Some ''note'') world_put_fails))
     = [\<lparr>lvl = ERROR, fmt = ''Error updating incident %s: %s'',
         args = [AStr ''inc-1'', AExn (Exception ''conflict'')]\<rparr>] \<and>
   AStatus ACTIVE \<notin> set [AStr ''inc-1'', AExn (Exception ''conflict'')]"
  by (simp add: world_put_fails_def world0_def inc1_def update_incident_status_def update_try_def
      Let_def called_simps logger_simps)

section \<open>The decision\<close>

text \<open>
  Claim C4. For every incident and every recommendation (any dictionary, whatever its
  recommended-status text), what the loop body does with the recommendation depends only
  on the status mapped from the recommended text and on the incident's status in the
  fetched record. When they differ, it is the update with the mapped status, and its
  first call to the store is the re-fetch of this incident. When they are equal, it
  returns normally with no call to the store, the store unchanged, and one more log
  entry. The loop body applies this to the dictionary that the model invocation
  returned.
\<close>

theorem process_incident_decision:
  "(Some (map_status (dict_get result ''recommended_status'' ''Active'')) \<noteq> status props \<longrightarrow>
      apply_recommendation config inc props summary result w =
        update_incident_status config inc
          (map_status (dict_get result ''recommended_status'' ''Active''))
          (or_None (result ''classification'')) (or_None (result ''comment'')) w
      \<and> (\<exists>cs. calls (snd (apply_recommendation config inc props summary result w))
                 = calls w @ GetIncident (name inc) # cs))
   \<and> (Some (map_status (dict_get result ''recommended_status'' ''Active'')) = status props \<longrightarrow>
      apply_recommendation config inc props summary result w =
        (Inr (), logger INFO ''No status change for incident %s'' [AStr (summary_id summary)] w)
      \<and> calls (snd (apply_recommendation config inc props summary result w)) = calls w
      \<and> store (snd (apply_recommendation config inc props summary result w)) = store w
      \<and> logs (snd (apply_recommendation config inc props summary result w))
           = logs w @ [\<lparr>lvl = INFO, fmt = ''No status change for incident %s'',
                          args = [AStr (summary_id summary)]\<rparr>])
   \<and> (properties inc = Some props
        \<and> analyse_incident llm_client (summary_title (incident_summary (name inc) props))
             (summary_description (incident_summary (name inc) props))
             (logger INFO ''Processing incident %s'' [AStr (name inc)] w) = (Inr result, v) \<longrightarrow>
      process_incident llm_client config inc w =
        apply_recommendation config inc props (incident_summary (name inc) props) result v)"
proof (intro conjI impI)
  assume d: "Some (map_status (dict_get result ''recommended_status'' ''Active'')) \<noteq> status props"
  then show p: "apply_recommendation config inc props summary result w =
        update_incident_status config inc
          (map_status (dict_get result ''recommended_status'' ''Active''))
          (or_None (result ''classification'')) (or_None (result ''comment'')) w"
    by (simp add: apply_recommendation_def Let_def)
  obtain r w' where u: "update_incident_status config inc
          (map_status (dict_get result ''recommended_status'' ''Active''))
          (or_None (result ''classification'')) (or_None (result ''comment'')) w = (r, w')"
    by (cases "update_incident_status config inc
          (map_status (dict_get result ''recommended_status'' ''Active''))
          (or_None (result ''classification'')) (or_None (result ''comment'')) w")
  from update_incident_status_shape [OF u] p u
  show "\<exists>cs. calls (snd (apply_recommendation config inc props summary result w))
                 = calls w @ GetIncident (name inc) # cs"
    by auto
next
  assume e: "Some (map_status (dict_get result ''recommended_status'' ''Active'')) = status props"
  then show "apply_recommendation config inc props summary result w =
        (Inr (), logger INFO ''No status change for incident %s'' [AStr (summary_id summary)] w)"
    by (simp add: apply_recommendation_def Let_def)
  from e show "calls (snd (apply_recommendation config inc props summary result w)) = calls w"
    by (simp add: apply_recommendation_def Let_def logger_simps)
  from e show "store (snd (apply_recommendation config inc props summary result w)) = store w"
    by (simp add: apply_recommendation_def Let_def logger_simps)
  from e show "logs (snd (apply_recommendation config inc props summary result w))
           = logs w @ [\<lparr>lvl = INFO, fmt = ''No status change for incident %s'',
                          args = [AStr (summary_id summary)]\<rparr>]"
    by (simp add: apply_recommendation_def Let_def logger_simps)
next
  assume "properties inc = Some props
        \<and> analyse_incident llm_client (summary_title (incident_summary (name inc) props))
             (summary_description (incident_summary (name inc) props))
             (logger INFO ''Processing incident %s'' [AStr (name inc)] w) = (Inr result, v)"
  then show "process_incident llm_client config inc w =
        apply_recommendation config inc props (incident_summary (name inc) props) result v"
    by (simp add: process_incident_def Let_def incident_summary_def)
qed

text \<open>
  The theorem at three recommendations for the incident \<open>inc2\<close>, whose status is
  \<open>ACTIVE\<close>: "Closed due to benign activity" maps to \<open>CLOSED\<close> and is an update, "aCtIvE"
  maps to \<open>ACTIVE\<close> and is a no-op, "new alert" maps to \<open>NEW\<close> and is an update; and at
  the dictionary that the model invocation returns for \<open>inc1\<close>.
\<close>

theorem process_incident_decision_witness:
  "map_status ''Closed due to benign activity'' = CLOSED
   \<and> apply_recommendation cfg inc2 (the (properties inc2)) (incident_summary ''inc-2'' (the (properties inc2)))
        [''recommended_status'' \<mapsto> ''Closed due to benign activity''] world0
      = update_incident_status cfg inc2 CLOSED None None world0
   \<and> (\<exists>cs. calls (snd (apply_recommendation cfg inc2 (the (properties inc2))
                  (incident_summary ''inc-2'' (the (properties inc2)))
                  [''recommended_status'' \<mapsto> ''Closed due to benign activity''] world0))
              = calls world0 @ GetIncident (name inc2) # cs)
   \<and> map_status ''new alert'' = NEW
   \<and> apply_recommendation cfg inc2 (the (properties inc2)) (incident_summary ''inc-2'' (the (properties inc2)))
        [''recommended_status'' \<mapsto> ''new alert''] world0
      = update_incident_status cfg inc2 NEW None None world0
   \<and> map_status ''aCtIvE'' = ACTIVE
   \<and> apply_recommendation cfg inc2 (the (properties inc2)) (incident_summary ''inc-2'' (the (properties inc2)))
        [''recommended_status'' \<mapsto> ''aCtIvE''] world0
      = (Inr (), logger INFO ''No status change for incident %s''
                   [AStr (summary_id (incident_summary ''inc-2'' (the (properties inc2))))] world0)
   \<and> calls (snd (apply_recommendation cfg inc2 (the (properties inc2))
                  (incident_summary ''inc-2'' (the (properties inc2)))
                  [''recommended_status'' \<mapsto> ''aCtIvE''] world0)) = calls world0
   \<and> store (snd (apply_recommendation cfg inc2 (the (properties inc2))
                  (incident_summary ''inc-2'' (the (properties inc2)))
                  [''recommended_status'' \<mapsto> ''aCtIvE''] world0)) = store world0
   \<and> process_incident gpt4 cfg inc1 world0 =
        apply_recommendation cfg inc1 (the (properties inc1))
          (incident_summary (name inc1) (the (properties inc1)))
          [''recommended_status'' \<mapsto> ''Active'', ''classification'' \<mapsto> [],
           ''comment'' \<mapsto> ''Closed, Benign, routine activity.'']
          (called (ChatCompletion ''gpt-4'' ''Suspicious login'' ''Multiple failed attempts'')
             (logger INFO ''Processing incident %s'' [AStr (name inc1)] world0))"
proof -
  let ?p2 = "the (properties inc2)"
  let ?s2 = "incident_summary ''inc-2'' ?p2"
  let ?rc = "[''recommended_status'' \<mapsto> ''Closed due to benign activity'']"
  let ?rn = "[''recommended_status'' \<mapsto> ''new alert'']"
  let ?ra = "[''recommended_status'' \<mapsto> ''aCtIvE'']"
  let ?r1 = "[''recommended_status'' \<mapsto> ''Active'', ''classification'' \<mapsto> [],
           ''comment'' \<mapsto> ''Closed, Benign, routine activity.'']"
  let ?w1 = "called (ChatCompletion ''gpt-4'' ''Suspicious login'' ''Multiple failed attempts'')
             (logger INFO ''Processing incident %s'' [AStr (name inc1)] world0)"
  have mc: "map_status ''Closed due to benign activity'' = CLOSED"
    and mn: "map_status ''new alert'' = NEW"
    and ma: "map_status ''aCtIvE'' = ACTIVE"
    by code_simp+
  have gc: "dict_get ?rc ''recommended_status'' ''Active'' = ''Closed due to benign activity''"
    and gn: "dict_get ?rn ''recommended_status'' ''Active'' = ''new alert''"
    and ga: "dict_get ?ra ''recommended_status'' ''Active'' = ''aCtIvE''"
    by (simp_all add: dict_get_def)
  have oc: "or_None (?rc ''classification'') = None" "or_None (?rc ''comment'') = None"
    and on: "or_None (?rn ''classification'') = None" "or_None (?rn ''comment'') = None"
    by (simp_all add: or_None_def truthy_def)
  have st: "status ?p2 = Some ACTIVE" by (simp add: inc2_def)
  have hc: "Some (map_status (dict_get ?rc ''recommended_status'' ''Active'')) \<noteq> status ?p2"
    by (simp add: gc mc st)
  have hn: "Some (map_status (dict_get ?rn ''recommended_status'' ''Active'')) \<noteq> status ?p2"
    by (simp add: gn mn st)
  have ha: "Some (map_status (dict_get ?ra ''recommended_status'' ''Active'')) = status ?p2"
    by (simp add: ga ma st)
  have h1: "properties inc1 = Some (the (properties inc1))
        \<and> analyse_incident gpt4 (summary_title (incident_summary (name inc1) (the (properties inc1))))
             (summary_description (incident_summary (name inc1) (the (properties inc1))))
             (logger INFO ''Processing incident %s'' [AStr (name inc1)] world0) = (Inr ?r1, ?w1)"
    by (simp add: analyse_incident_def llm_try_def Let_def called_simps logger_simps
        incident_summary_def or_str_def inc1_def gpt4_def world0_def strip_example)
  note tc = process_incident_decision [where result = ?rc and props = ?p2 and config = cfg
      and inc = inc2 and summary = ?s2 and w = world0, THEN conjunct1, THEN mp, OF hc,
      unfolded gc mc oc]
  note tn = process_incident_decision [where result = ?rn and props = ?p2 and config = cfg
      and inc = inc2 and summary = ?s2 and w = world0, THEN conjunct1, THEN mp, OF hn,
      unfolded gn mn on]
  note ta = process_incident_decision [where result = ?ra and props = ?p2 and config = cfg
      and inc = inc2 and summary = ?s2 and w = world0, THEN conjunct2, THEN conjunct1, THEN mp,
      OF ha]
  note t1 = process_incident_decision [where result = ?r1 and props = "the (properties inc1)"
      and config = cfg and inc = inc1 and llm_client = gpt4 and w = world0 and v = ?w1,
      THEN conjunct2, THEN conjunct2, THEN mp, OF h1]
  from mc mn ma tc tn ta t1 show ?thesis by blast
qed

section \<open>The loop\<close>

lemma triage_loop_shape:
  assumes "\<forall>inc \<in> set incs. properties inc \<noteq> None"
    and "triage_loop llm config incs w = (r, w')"
  shows "(\<exists>cs. calls w' = calls w @ cs \<and> (\<forall>call \<in> set cs. \<exists>inc \<in> set incs. body_call inc call))
       \<and> completion w' = completion w \<and> get_exc w' = get_exc w \<and> put_exc w' = put_exc w
       \<and> (case r of Inr u \<Rightarrow> processed (logs w') = processed (logs w) @ map name incs
                 | Inl x \<Rightarrow> \<not> is_Exception x
                      \<and> ((\<exists>m t d. completion w m t d = Inl x)
                           \<or> (\<exists>i. get_exc w i = Some x) \<or> (\<exists>i. put_exc w i = Some x)))"
  using assms
proof (induction incs arbitrary: w)
  case Nil
  then have "r = Inr ()" "w' = w" by simp_all
  then show ?case by simp
next
  case (Cons inc rest)
  from Cons.prems(1) obtain props where props: "properties inc = Some props" by auto
  obtain r1 w1 where p: "process_incident llm config inc w = (r1, w1)"
    by (cases "process_incident llm config inc w")
  note sh = process_incident_shape [OF props p]
  from sh obtain cs1 where cs1: "calls w1 = calls w @ cs1" "\<forall>call \<in> set cs1. body_call inc call"
    by blast
  have o1: "completion w1 = completion w" "get_exc w1 = get_exc w" "put_exc w1 = put_exc w"
    using sh by simp_all
  show ?case
  proof (cases r1)
    case (Inl x)
    with p Cons.prems(2) have rw: "r = Inl x" "w' = w1" by simp_all
    have "\<exists>cs. calls w' = calls w @ cs
            \<and> (\<forall>call \<in> set cs. \<exists>i \<in> set (inc # rest). body_call i call)"
      using cs1 rw by (intro exI [of _ cs1]) simp
    moreover have "\<not> is_Exception x
                      \<and> ((\<exists>m t d. completion w m t d = Inl x)
                           \<or> (\<exists>i. get_exc w i = Some x) \<or> (\<exists>i. put_exc w i = Some x))"
      using sh Inl by simp
    ultimately show ?thesis using rw o1 by simp
  next
    case (Inr u)
    with p Cons.prems(2) have l: "triage_loop llm config rest w1 = (r, w')" by simp
    from Cons.prems(1) have "\<forall>inc \<in> set rest. properties inc \<noteq> None" by simp
    note ih = Cons.IH [OF this l]
    from ih obtain cs2 where cs2: "calls w' = calls w1 @ cs2"
      "\<forall>call \<in> set cs2. \<exists>i \<in> set rest. body_call i call"
      by blast
    have "calls w' = calls w @ (cs1 @ cs2)" using cs1 cs2 by simp
    moreover have "\<forall>call \<in> set (cs1 @ cs2). \<exists>i \<in> set (inc # rest). body_call i call"
      using cs1(2) cs2(2) by auto
    ultimately have c: "\<exists>cs. calls w' = calls w @ cs
            \<and> (\<forall>call \<in> set cs. \<exists>i \<in> set (inc # rest). body_call i call)"
      by blast
    have o: "completion w' = completion w" "get_exc w' = get_exc w" "put_exc w' = put_exc w"
      using ih o1 by simp_all
    have l1: "processed (logs w1) = processed (logs w) @ [name inc]" using sh by simp
    have e: "case r of Inr u \<Rightarrow> processed (logs w') = processed (logs w) @ map name (inc # rest)
                 | Inl x \<Rightarrow> \<not> is_Exception x
                      \<and> ((\<exists>m t d. completion w m t d = Inl x)
                           \<or> (\<exists>i. get_exc w i = Some x) \<or> (\<exists>i. put_exc w i = Some x))"
      using ih l1 o1 by (cases r) auto
    show ?thesis using c o e by simp
  qed
qed

lemma triage_loop_foldl:
  assumes "\<forall>m t d x. completion w m t d = Inl x \<longrightarrow> is_Exception x"
    and "\<forall>i x. get_exc w i = Some x \<longrightarrow> is_Exception x"
    and "\<forall>i x. put_exc w i = Some x \<longrightarrow> is_Exception x"
    and "\<forall>inc \<in> set incs. properties inc \<noteq> None"
  shows "triage_loop llm config incs w =
           (Inr (), foldl (\<lambda>v inc. snd (process_incident llm config inc v)) w incs)"
  using assms
proof (induction incs arbitrary: w)
  case Nil
  show ?case by simp
next
  case (Cons inc rest)
  from Cons.prems(4) obtain props where props: "properties inc = Some props" by auto
  obtain r w1 where p: "process_incident llm config inc w = (r, w1)"
    by (cases "process_incident llm config inc w")
  note sh = process_incident_shape [OF props p]
  have o1: "completion w1 = completion w" "get_exc w1 = get_exc w" "put_exc w1 = put_exc w"
    using sh by simp_all
  have r: "r = Inr ()"
    using sh Cons.prems(1,2,3) by (cases r) auto
  have "triage_loop llm config rest w1 =
           (Inr (), foldl (\<lambda>v inc. snd (process_incident llm config inc v)) w1 rest)"
    using Cons.prems by (intro Cons.IH) (simp_all add: o1)
  with p r show ?case by simp
qed

text \<open>
  Claim C1, as the code has it. The loop has no handler of its own. An \<open>Exception\<close>
  raised by the call to the provider is caught inside \<open>analyse_incident\<close> and logged
  there with the exception as only argument (the incident id is not in that entry); an
  \<open>Exception\<close> raised by the re-fetch or by the submission is caught inside
  \<open>update_incident_status\<close> and logged there with the incident id and the exception.
  So when the collaborators raise nothing but \<open>Exception\<close>s, the loop returns normally
  and is the body run on every fetched incident, one after the other in the order of the
  list; the log announces each of them. An exception that those two handlers let through
  (a \<open>BaseException\<close> raised by the call to the provider) leaves the loop at once: the
  remaining incidents are not processed.
\<close>

theorem triage_loop_continues:
  "((\<forall>m t d x. completion w m t d = Inl x \<longrightarrow> is_Exception x)
      \<and> (\<forall>i x. get_exc w i = Some x \<longrightarrow> is_Exception x)
      \<and> (\<forall>i x. put_exc w i = Some x \<longrightarrow> is_Exception x)
      \<and> (\<forall>inc \<in> set incidents. properties inc \<noteq> None) \<longrightarrow>
      triage_loop llm_client config incidents w =
        (Inr (), foldl (\<lambda>v inc. snd (process_incident llm_client config inc v)) w incidents)
      \<and> processed (logs (snd (triage_loop llm_client config incidents w)))
           = processed (logs w) @ map name incidents)
   \<and> (completion w (model_name llm_client) t d = Inl (Exception e) \<longrightarrow>
      analyse_incident llm_client t d w =
        (Inr [''recommended_status'' \<mapsto> ''Active'', ''classification'' \<mapsto> ''Unspecified'',
              ''comment'' \<mapsto> ''LLM analysis failed; leaving incident open.''],
         logger ERROR ''Error invoking LLM: %s'' [AExn (Exception e)]
           (called (ChatCompletion (model_name llm_client) t d) w)))
   \<and> (get_exc w (name incident) = Some (Exception e) \<longrightarrow>
      update_incident_status config incident status' classification' comment w =
        (Inr (), logger ERROR ''Error updating incident %s: %s''
                   [AStr (name incident), AExn (Exception e)]
                   (called (GetIncident (name incident)) w)))
   \<and> (get_exc w (name incident) = None \<and> store w (name incident) = Some current
        \<and> properties current = Some p \<and> put_exc w (name current) = Some (Exception e) \<longrightarrow>
      update_incident_status config incident status' classification' comment w =
        (Inr (), logger ERROR ''Error updating incident %s: %s''
                   [AStr (name incident), AExn (Exception e)]
                   (called (CreateOrUpdate (name current)
                      (current\<lparr>properties := Some (modified p status' classification' comment)\<rparr>))
                     (called (GetIncident (name incident)) w))))
   \<and> (properties inc = Some props
      \<and> completion w (model_name llm_client) (summary_title (incident_summary (name inc) props))
            (summary_description (incident_summary (name inc) props)) = Inl (BaseException m) \<longrightarrow>
      triage_loop llm_client config (inc # rest) w =
        (Inl (BaseException m),
         called (ChatCompletion (model_name llm_client)
                   (summary_title (incident_summary (name inc) props))
                   (summary_description (incident_summary (name inc) props)))
           (logger INFO ''Processing incident %s'' [AStr (name inc)] w)))"
proof (intro conjI impI)
  assume h: "(\<forall>m t d x. completion w m t d = Inl x \<longrightarrow> is_Exception x)
      \<and> (\<forall>i x. get_exc w i = Some x \<longrightarrow> is_Exception x)
      \<and> (\<forall>i x. put_exc w i = Some x \<longrightarrow> is_Exception x)
      \<and> (\<forall>inc \<in> set incidents. properties inc \<noteq> None)"
  then show f: "triage_loop llm_client config incidents w =
        (Inr (), foldl (\<lambda>v inc. snd (process_incident llm_client config inc v)) w incidents)"
    by (intro triage_loop_foldl) simp_all
  obtain r w' where l: "triage_loop llm_client config incidents w = (r, w')"
    by (cases "triage_loop llm_client config incidents w")
  from h have "\<forall>inc \<in> set incidents. properties inc \<noteq> None" by simp
  note sh = triage_loop_shape [OF this l]
  from f l have "r = Inr ()" by simp
  with sh l show "processed (logs (snd (triage_loop llm_client config incidents w)))
           = processed (logs w) @ map name incidents"
    by simp
next
  assume "completion w (model_name llm_client) t d = Inl (Exception e)"
  then show "analyse_incident llm_client t d w =
        (Inr [''recommended_status'' \<mapsto> ''Active'', ''classification'' \<mapsto> ''Unspecified'',
              ''comment'' \<mapsto> ''LLM analysis failed; leaving incident open.''],
         logger ERROR ''Error invoking LLM: %s'' [AExn (Exception e)]
           (called (ChatCompletion (model_name llm_client) t d) w))"
    by (simp add: analyse_incident_def llm_try_def Let_def called_simps)
next
  assume g: "get_exc w (name incident) = Some (Exception e)"
  from update_try_get_raises [OF g]
  show "update_incident_status config incident status' classification' comment w =
        (Inr (), logger ERROR ''Error updating incident %s: %s''
                   [AStr (name incident), AExn (Exception e)]
                   (called (GetIncident (name incident)) w))"
    by (simp add: update_incident_status_def)
next
  assume "get_exc w (name incident) = None \<and> store w (name incident) = Some current
        \<and> properties current = Some p \<and> put_exc w (name current) = Some (Exception e)"
  then have "update_try config incident status' classification' comment w =
     (Inl (Exception e),
      called (CreateOrUpdate (name current)
                (current\<lparr>properties := Some (modified p status' classification' comment)\<rparr>))
        (called (GetIncident (name incident)) w))"
    by (intro update_try_put_raises) simp_all
  then show "update_incident_status config incident status' classification' comment w =
        (Inr (), logger ERROR ''Error updating incident %s: %s''
                   [AStr (name incident), AExn (Exception e)]
                   (called (CreateOrUpdate (name current)
                      (current\<lparr>properties := Some (modified p status' classification' comment)\<rparr>))
                     (called (GetIncident (name incident)) w)))"
    by (simp add: update_incident_status_def)
next
  assume h: "properties inc = Some props
      \<and> completion w (model_name llm_client) (summary_title (incident_summary (name inc) props))
            (summary_description (incident_summary (name inc) props)) = Inl (BaseException m)"
  then show "triage_loop llm_client config (inc # rest) w =
        (Inl (BaseException m),
         called (ChatCompletion (model_name llm_client)
                   (summary_title (incident_summary (name inc) props))
                   (summary_description (incident_summary (name inc) props)))
           (logger INFO ''Processing incident %s'' [AStr (name inc)] w))"
    by (simp add: process_incident_def analyse_incident_def llm_try_def Let_def called_simps
        logger_simps incident_summary_def)
qed

theorem triage_loop_continues_witness:
  "triage_loop gpt4 cfg [inc1, inc2, inc3] world_llm_fails =
      (Inr (), foldl (\<lambda>v inc. snd (process_incident gpt4 cfg inc v)) world_llm_fails
                 [inc1, inc2, inc3])
   \<and> processed (logs (snd (triage_loop gpt4 cfg [inc1, inc2, inc3] world_llm_fails)))
        = processed (logs world_llm_fails) @ map name [inc1, inc2, inc3]
   \<and> completion world_llm_fails (model_name gpt4) ''Port scan'' ''(no description)''
        = Inl (Exception ''timeout'')
   \<and> analyse_incident gpt4 ''Port scan'' ''(no description)'' world_llm_fails =
        (Inr [''recommended_status'' \<mapsto> ''Active'', ''classification'' \<mapsto> ''Unspecified'',
              ''comment'' \<mapsto> ''LLM analysis failed; leaving incident open.''],
         logger ERROR ''Error invoking LLM: %s'' [AExn (Exception ''timeout'')]
           (called (ChatCompletion (model_name gpt4) ''Port scan'' ''(no description)'')
              world_llm_fails))
   \<and> get_exc world_get_fails (name inc1) = Some (Exception ''503'')
   \<and> update_incident_status cfg inc1 ACTIVE None None world_get_fails =
        (Inr (), logger ERROR ''Error updating incident %s: %s''
                   [AStr (name inc1), AExn (Exception ''503'')]
                   (called (GetIncident (name inc1)) world_get_fails))
   \<and> (get_exc world_put_fails (name inc1) = None
      \<and> store world_put_fails (name inc1) = Some inc1
      \<and> properties inc1 = Some (the (properties inc1))
      \<and> put_exc world_put_fails (name inc1) = Some (Exception ''conflict''))
   \<and> update_incident_status cfg inc1 ACTIVE None None world_put_fails =
        (Inr (), logger ERROR ''Error updating incident %s: %s''
                   [AStr (name inc1), AExn (Exception ''conflict'')]
                   (called (CreateOrUpdate (name inc1)
                      (inc1\<lparr>properties := Some (modified (the (properties inc1)) ACTIVE None None)\<rparr>))
                     (called (GetIncident (name inc1)) world_put_fails)))
   \<and> (properties inc2 = Some (the (properties inc2))
      \<and> completion world1 (model_name gpt4)
            (summary_title (incident_summary (name inc2) (the (properties inc2))))
            (summary_description (incident_summary (name inc2) (the (properties inc2))))
          = Inl (BaseException ''KeyboardInterrupt''))
   \<and> triage_loop gpt4 cfg [inc2, inc3] world1 =
        (Inl (BaseException ''KeyboardInterrupt''),
         called (ChatCompletion (model_name gpt4)
                   (summary_title (incident_summary (name inc2) (the (properties inc2))))
                   (summary_description (incident_summary (name inc2) (the (properties inc2)))))
           (logger INFO ''Processing incident %s'' [AStr (name inc2)] world1))"
proof -
  have a: "(\<forall>m t d x. completion world_llm_fails m t d = Inl x \<longrightarrow> is_Exception x)
      \<and> (\<forall>i x. get_exc world_llm_fails i = Some x \<longrightarrow> is_Exception x)
      \<and> (\<forall>i x. put_exc world_llm_fails i = Some x \<longrightarrow> is_Exception x)
      \<and> (\<forall>inc \<in> set [inc1, inc2, inc3]. properties inc \<noteq> None)"
    by (auto simp add: world_llm_fails_def world0_def inc1_def inc2_def inc3_def)
  have c: "completion world_llm_fails (model_name gpt4) ''Port scan'' ''(no description)''
        = Inl (Exception ''timeout'')"
    by (simp add: world_llm_fails_def)
  have g: "get_exc world_get_fails (name inc1) = Some (Exception ''503'')"
    by (simp add: world_get_fails_def)
  have u: "get_exc world_put_fails (name inc1) = None
      \<and> store world_put_fails (name inc1) = Some inc1
      \<and> properties inc1 = Some (the (properties inc1))
      \<and> put_exc world_put_fails (name inc1) = Some (Exception ''conflict'')"
    by (simp add: world_put_fails_def world0_def inc1_def)
  have b: "properties inc2 = Some (the (properties inc2))
      \<and> completion world1 (model_name gpt4)
            (summary_title (incident_summary (name inc2) (the (properties inc2))))
            (summary_description (incident_summary (name inc2) (the (properties inc2))))
          = Inl (BaseException ''KeyboardInterrupt'')"
    by (simp add: world1_def inc2_def incident_summary_def or_str_def)
  note t1 = triage_loop_continues [where w = world_llm_fails and incidents = "[inc1, inc2, inc3]"
      and llm_client = gpt4 and config = cfg, THEN conjunct1, THEN mp, OF a]
  note t2 = triage_loop_continues [where w = world_llm_fails and llm_client = gpt4
      and t = "''Port scan''" and d = "''(no description)''" and e = "''timeout''",
      THEN conjunct2, THEN conjunct1, THEN mp, OF c]
  note t3 = triage_loop_continues [where w = world_get_fails and incident = inc1
      and e = "''503''" and config = cfg and status' = ACTIVE and classification' = None
      and comment = None, THEN conjunct2, THEN conjunct2, THEN conjunct1, THEN mp, OF g]
  note t4 = triage_loop_continues [where w = world_put_fails and incident = inc1
      and e = "''conflict''" and config = cfg and status' = ACTIVE and classification' = None
      and comment = None and current = inc1 and p = "the (properties inc1)",
      THEN conjunct2, THEN conjunct2, THEN conjunct2, THEN conjunct1, THEN mp, OF u]
  note t5 = triage_loop_continues [where w = world1 and inc = inc2
      and props = "the (properties inc2)" and llm_client = gpt4
      and m = "''KeyboardInterrupt''" and config = cfg and rest = "[inc3]",
      THEN conjunct2, THEN conjunct2, THEN conjunct2, THEN conjunct2, THEN mp, OF b]
  from t1 t2 c t3 g t4 u t5 b show ?thesis by blast
qed

lemmas model_defs =
  run_triage_def load_config_def get_sentinel_client_def get_credential_def LLMClient_init_def
  list_active_incidents_def is_active_def process_incident_def
  apply_recommendation_def incident_summary_def
  analyse_incident_def llm_try_def update_incident_status_def update_try_def modified_def
  truthy_def or_str_def or_None_def dict_get_def Let_def called_def logger_def

text \<open>
  The claim as the spec words it fails in a run where the provider times out on the first
  incident and the run is interrupted during the call for the second. The time-out is
  logged without the incident id (the entry's only argument is the exception); the
  interrupt leaves \<open>run_triage\<close>, and the third fetched incident is never processed.
\<close>

theorem run_triage_interrupted_counterexample:
  "pager world1 = Inr [inc1, inc2, inc3] \<and>
   fst (run_triage world1) = Inl (BaseException ''KeyboardInterrupt'') \<and>
   logs (snd (run_triage world1)) =
     [\<lparr>lvl = DEBUG, fmt = ''Obtained token using DefaultAzureCredential'', args = []\<rparr>,
      \<lparr>lvl = INFO, fmt = ''Fetched %d active incidents'', args = [ANat 3]\<rparr>,
      \<lparr>lvl = INFO, fmt = ''Processing incident %s'', args = [AStr ''inc-1'']\<rparr>,
      \<lparr>lvl = ERROR, fmt = ''Error invoking LLM: %s'', args = [AExn (Exception ''timeout'')]\<rparr>,
      \<lparr>lvl = INFO, fmt = ''Updated incident %s to status %s with classification %s'',
         args = [AStr ''inc-1'', AStatus ACTIVE, AOptStr (Some ''Unspecified'')]\<rparr>,
      \<lparr>lvl = INFO, fmt = ''Processing incident %s'', args = [AStr ''inc-2'']\<rparr>]"
  by (simp add: world1_def world0_def inc1_def inc2_def inc3_def model_defs map_status_Active)

section \<open>The whole run\<close>

lemma list_active_incidents_shape:
  assumes "list_active_incidents config w = (r, w')"
  shows "calls w' = calls w @ [ListIncidents]
       \<and> completion w' = completion w \<and> get_exc w' = get_exc w \<and> put_exc w' = put_exc w
       \<and> (case r of Inl x \<Rightarrow> True
                 | Inr incidents \<Rightarrow> (\<forall>inc \<in> set incidents. is_active inc
                        \<and> (\<exists>items. pager w = Inr items \<and> inc \<in> set items)))"
proof (cases "pager w")
  case (Inr items)
  with assms show ?thesis
    by (auto simp add: list_active_incidents_def Let_def called_simps logger_simps)
next
  case (Inl x)
  show ?thesis
  proof (cases x)
    case (Exception m)
    with Inl assms have "r = Inr []"
      "w' = logger ERROR ''Error listing incidents: %s'' [AExn (Exception m)] (called ListIncidents w)"
      by (simp_all add: list_active_incidents_def Let_def called_simps)
    then show ?thesis by (simp add: called_simps logger_simps)
  next
    case (BaseException m)
    with Inl assms have "r = Inl (BaseException m)" "w' = called ListIncidents w"
      by (simp_all add: list_active_incidents_def Let_def called_simps)
    then show ?thesis by (simp add: called_simps)
  qed
qed

lemma is_active_status: "is_active inc \<Longrightarrow> status_of inc = Some NEW \<or> status_of inc = Some ACTIVE"
  by (cases "properties inc") (auto simp add: is_active_def status_of_def)

text \<open>
  Claim C5. In every run of \<open>run_triage\<close>, every record written to the store has status
  \<open>ACTIVE\<close>, and every re-fetch (the first step of an update) is for an incident that
  the pager returned with status \<open>NEW\<close>. So no run writes \<open>CLOSED\<close> or \<open>NEW\<close>.
\<close>

theorem run_triage_only_activates:
  "\<exists>cs. calls (snd (run_triage w)) = calls w @ cs
      \<and> (\<forall>i rec. CreateOrUpdate i rec \<in> set cs \<longrightarrow> status_of rec = Some ACTIVE)
      \<and> (\<forall>i. GetIncident i \<in> set cs \<longrightarrow>
            (\<exists>items inc. pager w = Inr items \<and> inc \<in> set items \<and> name inc = i
               \<and> status_of inc = Some NEW))"
proof (cases "load_config w")
  case (Inl e)
  then have "calls (snd (run_triage w)) = calls w @ []" by (simp add: run_triage_def)
  then show ?thesis by (intro exI [of _ "[]"]) simp
next
  case (Inr config)
  note cf = Inr
  obtain rc w1 where g: "get_sentinel_client config w = (rc, w1)"
    by (cases "get_sentinel_client config w")
  have w1: "calls w1 = calls w" "pager w1 = pager w"
    using g
    by (auto simp add: get_sentinel_client_def get_credential_def logger_simps
        split: option.splits exn.splits)
  show ?thesis
  proof (cases rc)
    case (Inl e)
    with cf g w1 have "calls (snd (run_triage w)) = calls w @ []" by (simp add: run_triage_def)
    then show ?thesis by (intro exI [of _ "[]"]) simp
  next
    case (Inr u)
    note rcok = Inr
    show ?thesis
    proof (cases "LLMClient_init (dict_get (environ w1) ''LLM_MODEL'' ''gpt-4'') w1")
      case (Inl e)
      with cf g rcok w1 have "calls (snd (run_triage w)) = calls w @ []"
        by (cases e) (simp_all add: run_triage_def logger_simps)
      then show ?thesis by (intro exI [of _ "[]"]) simp
    next
      case (Inr llm)
      obtain rl w2 where l: "list_active_incidents config w1 = (rl, w2)"
        by (cases "list_active_incidents config w1")
      note lsh = list_active_incidents_shape [OF l]
      show ?thesis
      proof (cases rl)
        case (Inl e)
        with cf g rcok Inr l have "snd (run_triage w) = w2" by (simp add: run_triage_def)
        with lsh w1 have "calls (snd (run_triage w)) = calls w @ [ListIncidents]" by simp
        then show ?thesis by (intro exI [of _ "[ListIncidents]"]) simp
      next
        case (Inr incidents)
        note incs = Inr
        obtain r w' where t: "triage_loop llm config incidents w2 = (r, w')"
          by (cases "triage_loop llm config incidents w2")
        from cf g rcok \<open>LLMClient_init (dict_get (environ w1) ''LLM_MODEL'' ''gpt-4'') w1 = Inr llm\<close>
          l incs t
        have rt: "snd (run_triage w) = w'" by (simp add: run_triage_def)
        have act: "\<forall>inc \<in> set incidents. is_active inc
                        \<and> (\<exists>items. pager w = Inr items \<and> inc \<in> set items)"
          using lsh incs w1 by simp
        then have "\<forall>inc \<in> set incidents. properties inc \<noteq> None"
          using is_active_properties by fastforce
        note tsh = triage_loop_shape [OF this t]
        from tsh obtain cs where cs: "calls w' = calls w2 @ cs"
          "\<forall>call \<in> set cs. \<exists>inc \<in> set incidents. body_call inc call"
          by blast
        have c: "calls (snd (run_triage w)) = calls w @ (ListIncidents # cs)"
          using rt cs lsh w1 by simp
        have a: "\<forall>i rec. CreateOrUpdate i rec \<in> set (ListIncidents # cs) \<longrightarrow> status_of rec = Some ACTIVE"
          using cs(2) by (fastforce simp add: body_call_def)
        have b: "\<forall>i. GetIncident i \<in> set (ListIncidents # cs) \<longrightarrow>
            (\<exists>items inc. pager w = Inr items \<and> inc \<in> set items \<and> name inc = i
               \<and> status_of inc = Some NEW)"
        proof (intro allI impI)
          fix i assume "GetIncident i \<in> set (ListIncidents # cs)"
          then have "GetIncident i \<in> set cs" by simp
          with cs(2) obtain inc where inc: "inc \<in> set incidents" "body_call inc (GetIncident i)"
            by blast
          from inc(2) have n: "i = name inc" "status_of inc \<noteq> Some ACTIVE"
            by (simp_all add: body_call_def)
          from act inc(1) have "is_active inc" "\<exists>items. pager w = Inr items \<and> inc \<in> set items"
            by simp_all
          with n is_active_status [of inc]
          show "\<exists>items inc. pager w = Inr items \<and> inc \<in> set items \<and> name inc = i
               \<and> status_of inc = Some NEW"
            by auto
        qed
        from c a b show ?thesis by blast
      qed
    qed
  qed
qed

theorem run_triage_only_activates_witness:
  "calls (snd (run_triage world0)) = calls world0 @
     [ListIncidents,
      ChatCompletion ''gpt-4'' ''Suspicious login'' ''Multiple failed attempts'',
      GetIncident ''inc-1'',
      CreateOrUpdate ''inc-1'' (inc1\<lparr>properties := Some ((the (properties inc1))
         \<lparr>status := Some ACTIVE,
          classification_comment := Some ''Closed, Benign, routine activity.''\<rparr>)\<rparr>),
      ChatCompletion ''gpt-4'' ''Port scan'' ''(no description)'',
      ChatCompletion ''gpt-4'' ''(no title)'' ''Malware alert'',
      GetIncident ''inc-3'',
      CreateOrUpdate ''inc-3'' (inc3\<lparr>properties := Some ((the (properties inc3))
         \<lparr>status := Some ACTIVE,
          classification_comment := Some ''Closed, Benign, routine activity.''\<rparr>)\<rparr>)]
   \<and> status_of (inc1\<lparr>properties := Some ((the (properties inc1))
         \<lparr>status := Some ACTIVE,
          classification_comment := Some ''Closed, Benign, routine activity.''\<rparr>)\<rparr>) = Some ACTIVE
   \<and> (\<exists>items inc. pager world0 = Inr items \<and> inc \<in> set items \<and> name inc = ''inc-3''
               \<and> status_of inc = Some NEW)"
proof -
  let ?cs = "[ListIncidents,
      ChatCompletion ''gpt-4'' ''Suspicious login'' ''Multiple failed attempts'',
      GetIncident ''inc-1'',
      CreateOrUpdate ''inc-1'' (inc1\<lparr>properties := Some ((the (properties inc1))
         \<lparr>status := Some ACTIVE,
          classification_comment := Some ''Closed, Benign, routine activity.''\<rparr>)\<rparr>),
      ChatCompletion ''gpt-4'' ''Port scan'' ''(no description)'',
      ChatCompletion ''gpt-4'' ''(no title)'' ''Malware alert'',
      GetIncident ''inc-3'',
      CreateOrUpdate ''inc-3'' (inc3\<lparr>properties := Some ((the (properties inc3))
         \<lparr>status := Some ACTIVE,
          classification_comment := Some ''Closed, Benign, routine activity.''\<rparr>)\<rparr>)]"
  have c: "calls (snd (run_triage world0)) = calls world0 @ ?cs"
    by (simp add: world0_def inc1_def inc2_def inc3_def model_defs map_status_Active strip_example)
  from run_triage_only_activates [of world0] obtain cs where
    cs: "calls (snd (run_triage world0)) = calls world0 @ cs"
    and a: "\<forall>i rec. CreateOrUpdate i rec \<in> set cs \<longrightarrow> status_of rec = Some ACTIVE"
    and b: "\<forall>i. GetIncident i \<in> set cs \<longrightarrow>
            (\<exists>items inc. pager world0 = Inr items \<and> inc \<in> set items \<and> name inc = i
               \<and> status_of inc = Some NEW)"
    by blast
  from c cs have eq: "cs = ?cs" by simp
  have "CreateOrUpdate ''inc-1'' (inc1\<lparr>properties := Some ((the (properties inc1))
         \<lparr>status := Some ACTIVE,
          classification_comment := Some ''Closed, Benign, routine activity.''\<rparr>)\<rparr>) \<in> set cs"
    unfolding eq by simp
  with a have A: "status_of (inc1\<lparr>properties := Some ((the (properties inc1))
         \<lparr>status := Some ACTIVE,
          classification_comment := Some ''Closed, Benign, routine activity.''\<rparr>)\<rparr>) = Some ACTIVE"
    by blast
  have "GetIncident ''inc-3'' \<in> set cs" unfolding eq by simp
  with b have B: "\<exists>items inc. pager world0 = Inr items \<and> inc \<in> set items \<and> name inc = ''inc-3''
               \<and> status_of inc = Some NEW"
    by blast
  from c A B show ?thesis by blast
qed

end
